theory Spec2Isabelle
  imports Main "HOL-Library.Char_ord"
begin

section \<open>Bytes, C strings and memory\<close>

text \<open>
  The firmware works on fixed-size arrays of bytes (\<open>char\<close> and \<open>uint8_t\<close>, both eight
  bits wide). A byte is a \<^typ>\<open>char\<close>; an array is the list of its bytes; a pointer into
  an array is the list of the bytes from that position on. A C string is read from such a
  region up to its first zero byte.
\<close>

type_synonym byte = char

definition NUL :: byte where
  "NUL = CHR 0x00"

definition cstr :: "byte list \<Rightarrow> string" where
  "cstr m = takeWhile (\<lambda>c. c \<noteq> NUL) m"

definition strlen :: "byte list \<Rightarrow> nat" where
  "strlen m = length (cstr m)"

definition memcpy :: "byte list \<Rightarrow> byte list \<Rightarrow> nat \<Rightarrow> byte list" where
  "memcpy dst src n = take n src @ drop n dst"

definition memset :: "byte list \<Rightarrow> byte \<Rightarrow> nat \<Rightarrow> byte list" where
  "memset dst c n = replicate n c @ drop n dst"

definition upper_letters :: string where
  "upper_letters = ''ABCDEFGHIJKLMNOPQRSTUVWXYZ''"

definition lower_letters :: string where
  "lower_letters = ''abcdefghijklmnopqrstuvwxyz''"

definition tolower :: "byte \<Rightarrow> byte" where
  "tolower c = (case map_of (zip upper_letters lower_letters) c of None \<Rightarrow> c | Some l \<Rightarrow> l)"

definition toupper :: "byte \<Rightarrow> byte" where
  "toupper c = (case map_of (zip lower_letters upper_letters) c of None \<Rightarrow> c | Some u \<Rightarrow> u)"

section \<open>Constants of the firmware\<close>

definition SYSPREFIX :: string where
  "SYSPREFIX = ''%ESP32_BTP% ''"

definition FIRMWARE_VERSION :: string where
  "FIRMWARE_VERSION = ''1.0''"

definition DEFAULT_REMOTE_ADDR :: string where
  "DEFAULT_REMOTE_ADDR = ''FF:FF:FF:FF:FF:FF''"

definition DEFAULT_REMOTE_PIN :: string where
  "DEFAULT_REMOTE_PIN = ''0000''"

definition LINE_BUFFER_LENGTH :: nat where
  "LINE_BUFFER_LENGTH = 64"

definition sizeof_remoteAddr :: nat where
  "sizeof_remoteAddr = 6"

definition sizeof_remotePin :: nat where
  "sizeof_remotePin = 9"

section \<open>The collaborators outside the sketch\<close>

text \<open>
  The sketch calls three libraries whose code is not part of it: the Bluetooth address
  class, the non-volatile key/value store and the Bluetooth serial port. What they
  answer is a parameter of the model.

  \<^item> \<open>BTAddress_fromString\<close> is the address constructor from text; the address
    object it builds owns six bytes.
  \<^item> \<open>nvs_retain k v\<close> is what the flash keeps when the blob \<open>v\<close> is written under key
    \<open>k\<close>; a sound medium keeps \<open>v\<close>.
  \<^item> \<open>after_pin_literal i\<close> is the byte at offset \<open>i\<close> behind the terminating zero of
    the literal \<open>DEFAULT_REMOTE_PIN\<close>: \<open>defaultBindRecord\<close> copies nine bytes from a
    literal that owns five.
  \<^item> the three scan fields are what a discovery run reports.
\<close>

type_synonym BTAddress = "byte \<times> byte \<times> byte \<times> byte \<times> byte \<times> byte"

definition getNative :: "BTAddress \<Rightarrow> byte list" where
  "getNative a = (case a of (a0, a1, a2, a3, a4, a5) \<Rightarrow> [a0, a1, a2, a3, a4, a5])"

definition BTAddress_fromNative :: "byte list \<Rightarrow> BTAddress" where
  "BTAddress_fromNative m = (m ! 0, m ! 1, m ! 2, m ! 3, m ! 4, m ! 5)"

record device =
  dev_address :: string
  dev_name :: string
  dev_rssi :: int
  dev_channels :: "(int \<times> string) list"

record platform =
  BTAddress_fromString :: "string \<Rightarrow> BTAddress"
  nvs_retain :: "string \<Rightarrow> byte list \<Rightarrow> byte list"
  after_pin_literal :: "nat \<Rightarrow> byte"
  discoverAsync_ok :: bool
  discovered :: "string list"
  scan_results :: "device list"

text \<open>
  The renderer \<open>BTAddress::toString\<close> prints the six bytes as two lower-case hexadecimal
  digits each, separated by colons.
\<close>

definition hexdigit :: "nat \<Rightarrow> byte" where
  "hexdigit n = ''0123456789abcdef'' ! (n mod 16)"

definition hex2 :: "byte \<Rightarrow> string" where
  "hex2 b = [hexdigit (of_char b div 16), hexdigit (of_char b mod 16)]"

definition BTAddress_toString :: "BTAddress \<Rightarrow> string" where
  "BTAddress_toString a =
     (case a of (a0, a1, a2, a3, a4, a5) \<Rightarrow>
        hex2 a0 @ '':'' @ hex2 a1 @ '':'' @ hex2 a2 @ '':'' @
        hex2 a3 @ '':'' @ hex2 a4 @ '':'' @ hex2 a5)"

section \<open>Program state\<close>

datatype printf_arg = ArgStr string | ArgInt int

datatype event =
    SerialPrint string
  | SerialPrintln string
  | SerialPrintf string "printf_arg list"
  | SerialWrite "byte list"
  | BTBegin string
  | BTWrite "byte list"
  | BTDisconnect
  | BTSetPin string nat
  | BTConnect BTAddress
  | BTDiscoverAsync
  | BTDiscoverAsyncStop
  | PrefsBegin string bool
  | PrefsEnd
  | PrefsClear
  | PrefsIsKey string
  | PrefsGetBytes string
  | PrefsPutBytes string "byte list"
  | Delay nat
  | ESPRestart

record BindRecord_t =
  valid :: bool
  remoteAddr :: "byte list"
  remotePin :: "byte list"

type_synonym nvs = "string \<rightharpoonup> byte list"

record state =
  commandMode :: bool
  lastBtnState :: bool
  connectionGood :: bool
  bindRec :: BindRecord_t
  addr :: BTAddress
  pin :: "byte list"
  lineBuffer :: "byte list"
  linePos :: nat
  prefs :: nvs
  trace :: "event list"

definition emit :: "event list \<Rightarrow> state \<Rightarrow> state" where
  "emit es s = s\<lparr>trace := trace s @ es\<rparr>"

definition println :: "string \<Rightarrow> state \<Rightarrow> state" where
  "println msg s = emit [SerialPrintln msg] s"

definition set_valid :: "bool \<Rightarrow> state \<Rightarrow> state" where
  "set_valid b s = s\<lparr>bindRec := (bindRec s)\<lparr>valid := b\<rparr>\<rparr>"

definition set_remoteAddr :: "byte list \<Rightarrow> state \<Rightarrow> state" where
  "set_remoteAddr a s = s\<lparr>bindRec := (bindRec s)\<lparr>remoteAddr := a\<rparr>\<rparr>"

definition set_remotePin :: "byte list \<Rightarrow> state \<Rightarrow> state" where
  "set_remotePin p s = s\<lparr>bindRec := (bindRec s)\<lparr>remotePin := p\<rparr>\<rparr>"

text \<open>
  The globals as their initialisers leave them at power-on, over the flash contents
  \<open>flash\<close> that survive a restart.
\<close>

definition power_on :: "platform \<Rightarrow> nvs \<Rightarrow> state" where
  "power_on E flash =
     \<lparr>commandMode = False, lastBtnState = False, connectionGood = False,
      bindRec = \<lparr>valid = False, remoteAddr = replicate 6 NUL, remotePin = replicate 9 NUL\<rparr>,
      addr = BTAddress_fromString E DEFAULT_REMOTE_ADDR,
      pin = ''0000'' @ replicate 5 NUL,
      lineBuffer = replicate (LINE_BUFFER_LENGTH + 1) NUL,
      linePos = 0,
      prefs = flash,
      trace = []\<rparr>"

section \<open>The key/value store\<close>

text \<open>
  \<open>Preferences\<close> is modelled at the level of its data: \<open>begin\<close> and \<open>end\<close> are recorded in
  the trace and do not change what is stored; \<open>clear\<close> empties the namespace;
  \<open>putBytes\<close> stores what the medium retains; \<open>getBytes\<close> fills the buffer from the
  front when the key holds a non-empty blob that fits, and leaves it alone otherwise.
\<close>

definition isKey :: "nvs \<Rightarrow> string \<Rightarrow> bool" where
  "isKey m k = (m k \<noteq> None)"

definition getBytes :: "nvs \<Rightarrow> string \<Rightarrow> byte list \<Rightarrow> nat \<Rightarrow> byte list" where
  "getBytes m k buf maxLen =
     (case m k of
        None \<Rightarrow> buf
      | Some v \<Rightarrow> if v = [] \<or> maxLen < length v then buf else v @ drop (length v) buf)"

definition putBytes :: "platform \<Rightarrow> string \<Rightarrow> byte list \<Rightarrow> state \<Rightarrow> state" where
  "putBytes E k v s =
     emit [PrefsPutBytes k v] (s\<lparr>prefs := (prefs s)(k \<mapsto> nvs_retain E k v)\<rparr>)"

definition prefs_clear :: "state \<Rightarrow> state" where
  "prefs_clear s = emit [PrefsClear] (s\<lparr>prefs := Map.empty\<rparr>)"

section \<open>Binding store\<close>

definition loadBindRecord :: "state \<Rightarrow> state" where
  "loadBindRecord s =
     (let s1 = set_valid False (emit [PrefsBegin ''BTPROXY'' True] s);
          s2 = emit [PrefsIsKey ''rAddr''] s1
      in if \<not> isKey (prefs s2) ''rAddr'' then s2
         else
           let s3 = set_remoteAddr
                      (getBytes (prefs s2) ''rAddr'' (remoteAddr (bindRec s2)) sizeof_remoteAddr)
                      (emit [PrefsGetBytes ''rAddr''] s2);
               s4 = emit [PrefsIsKey ''rPin''] s3
           in if \<not> isKey (prefs s4) ''rPin'' then s4
              else
                let s5 = set_remotePin
                           (getBytes (prefs s4) ''rPin'' (remotePin (bindRec s4)) sizeof_remotePin)
                           (emit [PrefsGetBytes ''rPin''] s4);
                    s6 = set_valid True s5
                in s6\<lparr>addr := BTAddress_fromNative (remoteAddr (bindRec s6)),
                      pin := memcpy (pin s6) (remotePin (bindRec s6)) 9\<rparr>)"

text \<open>
  Each comparison loop of \<open>saveBindRecord\<close> prints once and leaves at the first index
  where the two arrays differ, so it prints exactly when some index below its bound
  differs. Both loops run to \<open>sizeof(BindRecord_t::remoteAddr)\<close>.
\<close>

definition differs_below :: "nat \<Rightarrow> byte list \<Rightarrow> byte list \<Rightarrow> bool" where
  "differs_below n a b = list_ex (\<lambda>i. a ! i \<noteq> b ! i) [0..<n]"

definition saveBindRecord :: "platform \<Rightarrow> state \<Rightarrow> state" where
  "saveBindRecord E s =
     (if \<not> valid (bindRec s) then s
      else
        let checkAddr0 = replicate sizeof_remoteAddr NUL;
            checkPin0 = replicate sizeof_remotePin NUL;
            s1 = emit [PrefsEnd] (prefs_clear (emit [PrefsBegin ''BTPROXY'' False] s));
            s2 = emit [PrefsBegin ''BTPROXY'' False] s1;
            s3 = putBytes E ''rAddr'' (take sizeof_remoteAddr (remoteAddr (bindRec s2))) s2;
            s4 = putBytes E ''rPin'' (take sizeof_remotePin (remotePin (bindRec s3))) s3;
            checkAddr = getBytes (prefs s4) ''rAddr'' checkAddr0 sizeof_remoteAddr;
            checkPin = getBytes (prefs s4) ''rPin'' checkPin0 sizeof_remotePin;
            s5 = emit [PrefsGetBytes ''rAddr'', PrefsGetBytes ''rPin''] s4;
            s6 = (if differs_below sizeof_remoteAddr checkAddr (remoteAddr (bindRec s5))
                  then println (SYSPREFIX @ ''Error: remote address not saved'') s5 else s5);
            s7 = (if differs_below sizeof_remoteAddr checkPin (remotePin (bindRec s6))
                  then println (SYSPREFIX @ ''ERROR: remote pin is not saved'') s6 else s6)
        in println (SYSPREFIX @ ''DEBUG: Preferences saved'') (emit [PrefsEnd] s7))"

definition defaultBindRecord :: "platform \<Rightarrow> state \<Rightarrow> state" where
  "defaultBindRecord E s =
     (let a = BTAddress_fromString E DEFAULT_REMOTE_ADDR;
          s1 = set_remoteAddr
                 (memcpy (remoteAddr (bindRec s)) (getNative a) sizeof_remoteAddr) s;
          literal = DEFAULT_REMOTE_PIN @ [NUL] @ map (after_pin_literal E) [0..<4];
          s2 = set_remotePin (memcpy (remotePin (bindRec s1)) literal sizeof_remotePin) s1
      in println (SYSPREFIX @ ''DEBUG: default preferences loaded'') (set_valid True s2))"

section \<open>Mode button and reports\<close>

definition reportCommandMode :: "state \<Rightarrow> state" where
  "reportCommandMode s =
     emit [SerialPrint (SYSPREFIX @ ''CMD MODE: ''),
           SerialPrintln (if commandMode s then ''ENABLED'' else ''DISABLED'')] s"

text \<open>\<open>btnState\<close> is the reading \<open>digitalRead(0) == LOW\<close> of this call.\<close>

definition checkButton :: "bool \<Rightarrow> state \<Rightarrow> state" where
  "checkButton btnState s =
     (if btnState \<noteq> lastBtnState s
      then (let s1 = (if btnState
                      then reportCommandMode (s\<lparr>commandMode := \<not> commandMode s\<rparr>)
                      else s)
            in s1\<lparr>lastBtnState := btnState\<rparr>)
      else s)"

definition printCmdHelp :: "state \<Rightarrow> state" where
  "printCmdHelp s =
     emit [SerialPrintln (SYSPREFIX @ ''HELP: List of available commands:''),
           SerialPrintln (SYSPREFIX @ ''HELP:   HELP - prints this information''),
           SerialPrintln (SYSPREFIX @
             ''HELP:   SCAN - scan nearby BT devices and display addresses and names''),
           SerialPrintln (SYSPREFIX @
             ''HELP:   SETADDR XX:XX:XX:XX:XX:XX - set address of the remote device''),
           SerialPrintln (SYSPREFIX @
             ''HELP:   SETPIN XXXX - set pin code of the remoted device''),
           SerialPrintln (SYSPREFIX @ ''HELP:   INFO - display configuration''),
           SerialPrintln (SYSPREFIX @ ''HELP:   CLEAR - remove configuration'')] s"

definition printInfo :: "state \<Rightarrow> state" where
  "printInfo s =
     emit [SerialPrint (SYSPREFIX @ ''INFO: Remote address ''),
           SerialPrintln (BTAddress_toString (BTAddress_fromNative (remoteAddr (bindRec s)))),
           SerialPrint (SYSPREFIX @ ''INFO: PIN ''),
           SerialPrintln (cstr (remotePin (bindRec s)))] s"

section \<open>Discovery\<close>

definition BT_DISCOVER_TIME :: nat where
  "BT_DISCOVER_TIME = 10000"

definition report_device :: "device \<Rightarrow> event list" where
  "report_device d =
     [SerialPrint SYSPREFIX,
      SerialPrintf (''INFO: Address: %s  Name: [%s]  RSSI: %d'' @ [CHR 0x0A])
        [ArgStr (dev_address d), ArgStr (dev_name d), ArgInt (dev_rssi d)],
      SerialPrint SYSPREFIX,
      SerialPrintf (''INFO:        Services found: %d'' @ [CHR 0x0A])
        [ArgInt (int (length (dev_channels d)))]] @
     map (\<lambda>(ch, nm). SerialPrintf (''INFO:        channel %d (%s)'' @ [CHR 0x0A])
                        [ArgInt ch, ArgStr nm])
         (dev_channels d)"

definition asyncScan :: "platform \<Rightarrow> state \<Rightarrow> state" where
  "asyncScan E s =
     emit ([BTDisconnect,
            SerialPrintln (SYSPREFIX @ ''INFO: Scanning, please wait...''),
            BTDiscoverAsync] @
           (if discoverAsync_ok E
            then concat (map (\<lambda>d. [SerialPrint SYSPREFIX,
                                    SerialPrintf ('' SCAN: found %s'' @ [CHR 0x0A]) [ArgStr d]])
                             (discovered E)) @
                 [Delay BT_DISCOVER_TIME,
                  SerialPrintln (SYSPREFIX @ ''INFO: Stopping...''),
                  BTDiscoverAsyncStop,
                  SerialPrintln (SYSPREFIX @ ''INFO: Scan services...''),
                  Delay 5000] @
                 (if 0 < length (scan_results E)
                  then SerialPrintln (SYSPREFIX @ ''INFO: Found devices:'') #
                       concat (map report_device (scan_results E))
                  else [SerialPrintln (SYSPREFIX @ ''INFO: no devices found'')])
            else [SerialPrintln (SYSPREFIX @
                    ''ERROR: Can't run discovery, is the remote connected already?'')]) @
           [SerialPrintln (SYSPREFIX @ ''INFO: Scan complete'')]) s"

section \<open>Command parser\<close>

definition validateAddr :: "platform \<Rightarrow> byte list \<Rightarrow> bool" where
  "validateAddr E arg =
     (let newAddr = map tolower (cstr arg);
          check = BTAddress_fromString E newAddr;
          checkStr = map tolower (BTAddress_toString check)
      in checkStr = newAddr)"

definition setBindAddress :: "platform \<Rightarrow> byte list \<Rightarrow> state \<Rightarrow> state" where
  "setBindAddress E arg s =
     (let s1 = set_valid False s
      in if \<not> validateAddr E arg
         then println (SYSPREFIX @ ''ERROR: invalid address'') s1
         else
           let newAddr = BTAddress_fromString E (cstr arg);
               s2 = set_remoteAddr
                      (memcpy (remoteAddr (bindRec s1)) (getNative newAddr) sizeof_remoteAddr)
                      s1;
               s3 = emit [SerialPrint (SYSPREFIX @ ''INFO: New remote address is ''),
                          SerialPrintln (BTAddress_toString newAddr)] s2
           in set_valid True s3)"

text \<open>
  The digit loop of \<open>setBindPin\<close> over the bytes it may visit: it leaves at a zero byte
  and fails at a byte outside \<open>'0'..'9'\<close>.
\<close>

fun pin_scan :: "byte list \<Rightarrow> bool" where
  "pin_scan [] = True"
| "pin_scan (c # cs) =
     (if c = NUL then True
      else if c < CHR ''0'' \<or> CHR ''9'' < c then False
      else pin_scan cs)"

definition setBindPin :: "byte list \<Rightarrow> state \<Rightarrow> state" where
  "setBindPin arg s =
     (let s1 = set_valid False s;
          arglen = strlen arg;
          maxlen = sizeof_remotePin - 1
      in if arglen = 0 then println (SYSPREFIX @ ''ERROR: invalid pin'') s1
         else if \<not> pin_scan (take maxlen arg)
         then println (SYSPREFIX @ ''ERROR: invalid character in pin, only 0..9 allowed'') s1
         else
           let s2 = set_remotePin (memset (remotePin (bindRec s1)) NUL (maxlen + 1)) s1;
               s3 = set_remotePin
                      (memcpy (remotePin (bindRec s2)) arg
                         (if arglen < maxlen then arglen else maxlen)) s2;
               s4 = set_valid True s3
           in emit [SerialPrint (SYSPREFIX @ ''INFO: New pin is ''),
                    SerialPrintln (cstr (remotePin (bindRec s4)))] s4)"

text \<open>
  \<open>strstr(cmdUpper, verb) == cmdUpper\<close> holds exactly when \<open>verb\<close> is a prefix of the
  upper-cased copy of the first eight characters of the line.
\<close>

definition cmdUpper :: "state \<Rightarrow> string" where
  "cmdUpper s = map toupper (cstr (take 8 (lineBuffer s)))"

definition starts_with :: "string \<Rightarrow> string \<Rightarrow> bool" where
  "starts_with text verb = (take (length verb) text = verb)"

definition parseCommand :: "platform \<Rightarrow> state \<Rightarrow> state" where
  "parseCommand E s =
     (if starts_with (cmdUpper s) ''HELP'' then printCmdHelp s
      else if starts_with (cmdUpper s) ''INFO'' then printInfo s
      else if starts_with (cmdUpper s) ''SCAN'' then asyncScan E s
      else if starts_with (cmdUpper s) ''CLEAR''
      then saveBindRecord E (defaultBindRecord E s)
      else if starts_with (cmdUpper s) ''SETADDR''
      then (let s1 = setBindAddress E (drop (length ''SETADDR '') (lineBuffer s)) s
            in if valid (bindRec s1) then saveBindRecord E s1 else s1)
      else if starts_with (cmdUpper s) ''SETPIN''
      then (let s1 = setBindPin (drop (length ''SETPIN '') (lineBuffer s)) s
            in if valid (bindRec s1) then saveBindRecord E s1 else s1)
      else emit [SerialPrint SYSPREFIX,
                 SerialPrintf ''ERROR: unknown command %s, type HELP for help''
                   [ArgStr (cstr (lineBuffer s))]] s)"

definition resetLine :: "state \<Rightarrow> state" where
  "resetLine s =
     s\<lparr>lineBuffer := memset (lineBuffer s) NUL (LINE_BUFFER_LENGTH + 1), linePos := 0\<rparr>"

definition processInput :: "platform \<Rightarrow> byte \<Rightarrow> state \<Rightarrow> state" where
  "processInput E c s =
     (if c = CHR 0x0D then s
      else if c = CHR 0x0A then resetLine (parseCommand E s)
      else
        let s1 = s\<lparr>lineBuffer := (lineBuffer s)[linePos s := c], linePos := linePos s + 1\<rparr>
        in if LINE_BUFFER_LENGTH \<le> linePos s1 then resetLine (parseCommand E s1) else s1)"

text \<open>Typing a whole line: one \<open>processInput\<close> per byte received.\<close>

definition feed :: "platform \<Rightarrow> byte list \<Rightarrow> state \<Rightarrow> state" where
  "feed E bytes s = foldl (\<lambda>t c. processInput E c t) s bytes"

section \<open>Boot sequence\<close>

text \<open>
  What the outside world answers during \<open>setup()\<close>, here \<open>setup_boot\<close>. Each pass of the connect loop asks
  \<open>SerialBT.connected()\<close> at its head, then \<open>connect\<close>, then \<open>connected(10000)\<close>, then the
  button up to a hundred times. The loop has no bound of its own: \<open>connect_loop\<close> runs
  over the answers it is given and yields \<open>None\<close> when they end before the loop does.
\<close>

record attempt =
  connected_at_head :: bool
  connect_ok :: bool
  connected_10s :: bool
  buttons :: "nat \<Rightarrow> bool"

record boot_input =
  bt_begin_ok :: bool
  attempts :: "attempt list"
  connected_1s :: bool

datatype outcome = Running state | Halted state | Restarting state

primrec poll_button :: "(nat \<Rightarrow> bool) \<Rightarrow> nat \<Rightarrow> nat \<Rightarrow> state \<Rightarrow> state" where
  "poll_button btn 0 i s = s"
| "poll_button btn (Suc k) i s =
     (let s1 = checkButton (btn i) (emit [Delay 10] s)
      in if commandMode s1 then s1 else poll_button btn k (Suc i) s1)"

text \<open>The result pairs the state with whether \<open>setup\<close> returned from inside the loop.\<close>

fun connect_loop :: "attempt list \<Rightarrow> state \<Rightarrow> (bool \<times> state) option" where
  "connect_loop [] s = None"
| "connect_loop (a # as) s =
     (if connected_at_head a then Some (False, s)
      else
        let s1 = emit [BTSetPin (cstr (pin s)) (strlen (pin s)),
                       SerialPrint (SYSPREFIX @ ''DEBUG: Trying to connect ''),
                       SerialPrint (BTAddress_toString (addr s)),
                       SerialPrintln ''...'',
                       BTConnect (addr s)] s
        in if connect_ok a then Some (False, s1)
           else if connected_10s a then Some (False, s1)
           else
             let s2 = emit [SerialPrintln (SYSPREFIX @ ''ERROR: Connection failed''),
                            BTDisconnect,
                            SerialPrintln (SYSPREFIX @ ''STATE: DISCONNECTED''),
                            SerialPrintln (SYSPREFIX @
                              ''INFO: Press the '' @ [CHR 0x22] @ ''boot'' @ [CHR 0x22] @
                              '' button to enter command mode'')] s1;
                 s3 = poll_button (buttons a) 100 0 s2
             in if commandMode s3 then Some (True, s3) else connect_loop as s3)"

definition setup_boot :: "platform \<Rightarrow> boot_input \<Rightarrow> state \<Rightarrow> outcome option" where
  "setup_boot E inp s =
     (let s1 = emit [SerialPrintln (SYSPREFIX @ ''INFO: ESP32-BT-PROXY''),
                     SerialPrintln (SYSPREFIX @ ''INFO: firmware '' @ FIRMWARE_VERSION),
                     SerialPrintln (SYSPREFIX @ ''DEBUG: loading preferences'')] s;
          s2 = loadBindRecord s1;
          s3 = (if \<not> valid (bindRec s2)
                then saveBindRecord E
                       (defaultBindRecord E
                          (println (SYSPREFIX @
                             ''DEBUG: no valid preferences found, using defaults'') s2))
                else s2);
          s4 = emit [SerialPrint (SYSPREFIX @ ''INFO: Remote address ''),
                     SerialPrintln (BTAddress_toString (addr s3)),
                     SerialPrint (SYSPREFIX @ ''INFO: Remote pin ''),
                     SerialPrintln (cstr (pin s3)),
                     BTBegin ''ESP32_BTPROXY''] s3
      in if \<not> bt_begin_ok inp
         then Some (Halted (println (SYSPREFIX @
                 ''ERROR: Bluetooth initialization failed! Can't go on'') s4))
         else
           (case connect_loop (attempts inp)
                   (println (SYSPREFIX @ ''STATE: DISCONNECTED'') s4) of
              None \<Rightarrow> None
            | Some (returned, s5) \<Rightarrow>
                if returned then Some (Running s5)
                else if connected_1s inp
                then Some (Running (println (SYSPREFIX @ ''STATE: CONNECTED'')
                                     (reportCommandMode s5)))
                else Some (Running s5)))"

section \<open>Main loop\<close>

text \<open>
  One pass of \<open>loop\<close> reads the button, asks whether the link is up, and finds some
  bytes waiting on each side. A relay buffer holds 256 bytes and is written out when it
  is full and once more at the end if anything is left. \<open>ESP.restart()\<close> does not return.
\<close>

record cycle =
  button_low :: bool
  link_up :: bool
  bt_rx :: "byte list"
  uart_rx :: "byte list"

fun drain :: "byte list \<Rightarrow> byte list \<Rightarrow> byte list list" where
  "drain buf [] = (if 0 < length buf then [buf] else [])"
| "drain buf (b # bs) =
     (let buf1 = buf @ [b]
      in if 256 \<le> length buf1 then buf1 # drain [] bs else drain buf1 bs)"

definition loop :: "platform \<Rightarrow> cycle \<Rightarrow> state \<Rightarrow> outcome" where
  "loop E c s =
     (let s1 = checkButton (button_low c) s
      in if \<not> commandMode s1
         then
           (if \<not> link_up c
            then
              (let s2 = (if connectionGood s1
                         then emit [SerialPrintln SYSPREFIX,
                                    SerialPrintln (SYSPREFIX @ ''ERROR: Connection lost''),
                                    BTDisconnect,
                                    SerialPrintln (SYSPREFIX @ ''STATE: DISCONNECTED'')] s1
                         else s1)
               in Restarting (emit [SerialPrintln (SYSPREFIX @ ''INFO: RESTART''),
                                    ESPRestart] s2))
            else Running (emit (map SerialWrite (drain [] (bt_rx c)) @
                                map BTWrite (drain [] (uart_rx c))) s1))
         else Running (feed E (uart_rx c) s1))"

text \<open>
  A run of the firmware from power-on: \<open>setup\<close>, then one \<open>loop\<close> pass per cycle for as
  long as the device keeps running. A restart ends the run; the next run starts from
  \<open>power_on\<close> over the flash the restarted one left.
\<close>

fun cycles :: "platform \<Rightarrow> cycle list \<Rightarrow> outcome \<Rightarrow> outcome" where
  "cycles E [] r = r"
| "cycles E (c # cs) (Running s) = cycles E cs (loop E c s)"
| "cycles E (c # cs) (Halted s) = Halted s"
| "cycles E (c # cs) (Restarting s) = Restarting s"

definition run :: "platform \<Rightarrow> nvs \<Rightarrow> boot_input \<Rightarrow> cycle list \<Rightarrow> outcome option" where
  "run E flash inp cs = map_option (cycles E cs) (setup_boot E inp (power_on E flash))"

definition state_of :: "outcome \<Rightarrow> state" where
  "state_of r = (case r of Running s \<Rightarrow> s | Halted s \<Rightarrow> s | Restarting s \<Rightarrow> s)"

section \<open>A sound platform\<close>

text \<open>
  Modelled from the spec: the hardware-address parser of the wireless stack (the
  constructor of the address class from text) is not part of the sources. The spec
  gives its behaviour on canonical text only: a text of the shape
  \<open>xx:xx:xx:xx:xx:xx\<close>, hexadecimal digits of either case, parses to the six bytes it
  names (\<open>FF:FF:FF:FF:FF:FF\<close> is the broadcast address, \<open>01:23:45:67:89:ab\<close> renders
  back as itself). \<open>BTAddress_parse\<close> does that and answers the all-zero address on any
  other text. It serves as the concrete instance of the parameter \<open>BTAddress_fromString\<close>;
  the general theorems below hold for every parser.
\<close>

definition hexval :: "byte \<Rightarrow> nat option" where
  "hexval c = map_of (zip ''0123456789abcdefABCDEF''
                          [0, 1, 2, 3, 4, 5, 6, 7, 8, 9, 10, 11, 12, 13, 14, 15,
                           10, 11, 12, 13, 14, 15]) c"

definition parse_hex2 :: "byte \<Rightarrow> byte \<Rightarrow> byte option" where
  "parse_hex2 h l =
     (case (hexval h, hexval l) of
        (Some x, Some y) \<Rightarrow> Some (char_of (16 * x + y))
      | _ \<Rightarrow> None)"

fun parse_groups :: "string \<Rightarrow> byte list option" where
  "parse_groups [h, l] = map_option (\<lambda>b. [b]) (parse_hex2 h l)"
| "parse_groups (h # l # sep # rest) =
     (if sep = CHR '':''
      then (case (parse_hex2 h l, parse_groups rest) of
              (Some b, Some bs) \<Rightarrow> Some (b # bs)
            | _ \<Rightarrow> None)
      else None)"
| "parse_groups _ = None"

definition BTAddress_parse :: "string \<Rightarrow> BTAddress" where
  "BTAddress_parse text =
     (if length text = 17
      then (case parse_groups text of
              Some bs \<Rightarrow> BTAddress_fromNative bs
            | None \<Rightarrow> (NUL, NUL, NUL, NUL, NUL, NUL))
      else (NUL, NUL, NUL, NUL, NUL, NUL))"

definition sound_platform :: platform where
  "sound_platform =
     \<lparr>BTAddress_fromString = BTAddress_parse,
      nvs_retain = (\<lambda>k v. v),
      after_pin_literal = (\<lambda>i. NUL),
      discoverAsync_ok = True,
      discovered = [],
      scan_results = []\<rparr>"

section \<open>Predicates of the specification\<close>

text \<open>A decimal digit, as the specification of the pin code names it.\<close>

definition is_digit :: "byte \<Rightarrow> bool" where
  "is_digit c = (CHR ''0'' \<le> c \<and> c \<le> CHR ''9'')"

text \<open>
  Canonical address text: seventeen characters, six groups of two lower-case
  hexadecimal digits with a colon between neighbours. Anything else is malformed
  (wrong length, a bad separator, a character that is no hexadecimal digit).
\<close>

definition lower_hex :: string where
  "lower_hex = ''0123456789abcdef''"

fun canonical_groups :: "string \<Rightarrow> bool" where
  "canonical_groups [h, l] = (h \<in> set lower_hex \<and> l \<in> set lower_hex)"
| "canonical_groups (h # l # sep # rest) =
     (h \<in> set lower_hex \<and> l \<in> set lower_hex \<and> sep = CHR '':'' \<and> canonical_groups rest)"
| "canonical_groups _ = False"

definition canonical_text :: "string \<Rightarrow> bool" where
  "canonical_text t = (length t = 17 \<and> canonical_groups t)"

text \<open>
  The round-trip law in the specification's words: parsing the case-folded text and
  rendering the result, case-folded, gives the case-folded text back.
\<close>

definition round_trip_law :: "platform \<Rightarrow> string \<Rightarrow> bool" where
  "round_trip_law E A =
     (map tolower (BTAddress_toString (BTAddress_fromString E (map tolower A))) = map tolower A)"

text \<open>
  A malformed pin argument: empty, or with a character that is no digit among its first
  eight.
\<close>

definition malformed_pin :: "string \<Rightarrow> bool" where
  "malformed_pin t = (t = [] \<or> \<not> list_all is_digit (take 8 t))"

section \<open>States and platforms used as examples\<close>

text \<open>
  \<open>with_line l s\<close> is \<open>s\<close> with the line buffer as \<open>processInput\<close> leaves it once the
  characters of \<open>l\<close> have arrived on an empty buffer; \<open>idle\<close> says the buffer is empty.
  \<open>readback E r\<close> is the namespace after the record \<open>r\<close> has been written to it.
\<close>

definition with_line :: "string \<Rightarrow> state \<Rightarrow> state" where
  "with_line l s =
     s\<lparr>lineBuffer := l @ replicate (LINE_BUFFER_LENGTH + 1 - length l) NUL,
       linePos := length l\<rparr>"

definition idle :: "state \<Rightarrow> bool" where
  "idle s = (linePos s = 0 \<and> lineBuffer s = replicate (LINE_BUFFER_LENGTH + 1) NUL)"

definition readback :: "platform \<Rightarrow> BindRecord_t \<Rightarrow> nvs" where
  "readback E r =
     [''rAddr'' \<mapsto> nvs_retain E ''rAddr'' (take 6 (remoteAddr r)),
      ''rPin'' \<mapsto> nvs_retain E ''rPin'' (take 9 (remotePin r))]"

text \<open>
  \<open>fresh\<close> is the state once the defaults have been put into the record on a device that
  never stored anything; \<open>long_pin\<close> is that state after an eight-digit pin has been set.
  \<open>broadcast\<close> is the address \<open>FF:FF:FF:FF:FF:FF\<close>.
\<close>

definition fresh :: state where
  "fresh = defaultBindRecord sound_platform (power_on sound_platform Map.empty)"

definition broadcast :: BTAddress where
  "broadcast = (CHR 0xFF, CHR 0xFF, CHR 0xFF, CHR 0xFF, CHR 0xFF, CHR 0xFF)"

definition long_pin :: state where
  "long_pin = setBindPin (''12345678'' @ [NUL]) fresh"

text \<open>
  \<open>worn_platform\<close> is the sound platform on a medium that gives back byte 7 of the pin
  blob as \<open>'9'\<close>, whatever was written there.
\<close>

definition worn_platform :: platform where
  "worn_platform =
     sound_platform\<lparr>nvs_retain := (\<lambda>k v. if k = ''rPin'' then v[7 := CHR ''9''] else v)\<rparr>"

text \<open>
  \<open>boot_connected\<close> is a boot at which the first connection attempt succeeds and the
  link is then confirmed up; \<open>link_down\<close> is a pass of the main loop with the button
  untouched, the link down and nothing to relay.
\<close>

definition boot_connected :: boot_input where
  "boot_connected =
     \<lparr>bt_begin_ok = True,
      attempts = [\<lparr>connected_at_head = False, connect_ok = True, connected_10s = False,
                   buttons = (\<lambda>i. False)\<rparr>],
      connected_1s = True\<rparr>"

definition link_down :: cycle where
  "link_down = \<lparr>button_low = False, link_up = False, bt_rx = [], uart_rx = []\<rparr>"

section \<open>C strings\<close>

lemma cstr_Nil: "cstr [] = []"
  by (simp add: cstr_def)

lemma cstr_Cons: "cstr (c # m) = (if c = NUL then [] else c # cstr m)"
  by (simp add: cstr_def)

lemma cstr_take: "cstr (take n m) = take n (cstr m)"
  unfolding cstr_def
proof (induction m arbitrary: n)
  case Nil
  then show ?case by simp
next
  case (Cons c m)
  then show ?case by (cases n) simp_all
qed

lemma take_cstr_prefix: "n \<le> strlen m \<Longrightarrow> take n m = take n (cstr m)"
  unfolding strlen_def cstr_def
proof (induction m arbitrary: n)
  case Nil
  then show ?case by simp
next
  case (Cons c m)
  then show ?case by (cases n) (auto split: if_splits)
qed

lemma cstr_padded: "NUL \<notin> set xs \<Longrightarrow> cstr (xs @ replicate n NUL) = xs"
proof (induction xs)
  case Nil
  then show ?case by (cases n) (simp_all add: cstr_def)
next
  case (Cons x xs)
  then show ?case by (auto simp: cstr_Cons)
qed

lemma cstr_take_no_NUL: "NUL \<notin> set (take k (cstr m))"
proof
  assume "NUL \<in> set (take k (cstr m))"
  then have "NUL \<in> set (cstr m)" by (rule in_set_takeD)
  then show False by (auto simp: cstr_def dest: set_takeWhileD)
qed

lemma cstr_take_7_of_8: "take 7 (cstr (take 8 m)) = cstr (take 7 m)"
  by (simp add: cstr_take)

section \<open>The binding store\<close>

lemmas state_ops = emit_def println_def set_valid_def set_remoteAddr_def set_remotePin_def
  putBytes_def prefs_clear_def

lemma saveBindRecord_frame:
  "bindRec (saveBindRecord E s) = bindRec s"
  "addr (saveBindRecord E s) = addr s"
  "pin (saveBindRecord E s) = pin s"
  "commandMode (saveBindRecord E s) = commandMode s"
  "lastBtnState (saveBindRecord E s) = lastBtnState s"
  "connectionGood (saveBindRecord E s) = connectionGood s"
  "lineBuffer (saveBindRecord E s) = lineBuffer s"
  "linePos (saveBindRecord E s) = linePos s"
  by (simp_all add: saveBindRecord_def Let_def state_ops)

lemma saveBindRecord_prefs:
  "valid (bindRec s) \<Longrightarrow> prefs (saveBindRecord E s) = readback E (bindRec s)"
  by (simp add: saveBindRecord_def Let_def state_ops sizeof_remoteAddr_def sizeof_remotePin_def
        readback_def)

lemma saveBindRecord_trace:
  "valid (bindRec s) \<Longrightarrow>
     trace (saveBindRecord E s) =
       trace s @
       [PrefsBegin ''BTPROXY'' False, PrefsClear, PrefsEnd, PrefsBegin ''BTPROXY'' False,
        PrefsPutBytes ''rAddr'' (take 6 (remoteAddr (bindRec s))),
        PrefsPutBytes ''rPin'' (take 9 (remotePin (bindRec s))),
        PrefsGetBytes ''rAddr'', PrefsGetBytes ''rPin''] @
       (if differs_below 6
             (getBytes (readback E (bindRec s)) ''rAddr'' (replicate 6 NUL) 6)
             (remoteAddr (bindRec s))
        then [SerialPrintln (SYSPREFIX @ ''Error: remote address not saved'')] else []) @
       (if differs_below 6
             (getBytes (readback E (bindRec s)) ''rPin'' (replicate 9 NUL) 9)
             (remotePin (bindRec s))
        then [SerialPrintln (SYSPREFIX @ ''ERROR: remote pin is not saved'')] else []) @
       [PrefsEnd, SerialPrintln (SYSPREFIX @ ''DEBUG: Preferences saved'')]"
  by (simp add: saveBindRecord_def Let_def state_ops sizeof_remoteAddr_def sizeof_remotePin_def
        readback_def)

text \<open>
  C7. For every binding record with \<open>valid == false\<close>, \<open>saveBindRecord\<close> leaves the
  persistent store unchanged: the stored bytes after the call are the stored bytes
  before it. The call returns at its first test, so nothing else changes either.
\<close>

theorem saveBindRecord_invalid_is_noop:
  "\<not> valid (bindRec s) \<Longrightarrow>
     prefs (saveBindRecord E s) = prefs s \<and> saveBindRecord E s = s"
  by (simp add: saveBindRecord_def)

theorem saveBindRecord_invalid_is_noop_witness:
  "\<not> valid (bindRec (power_on sound_platform [''rAddr'' \<mapsto> ''abcdef''])) \<and>
   prefs (saveBindRecord sound_platform (power_on sound_platform [''rAddr'' \<mapsto> ''abcdef'']))
     = [''rAddr'' \<mapsto> ''abcdef''] \<and>
   saveBindRecord sound_platform (power_on sound_platform [''rAddr'' \<mapsto> ''abcdef''])
     = power_on sound_platform [''rAddr'' \<mapsto> ''abcdef'']"
proof -
  have inv: "\<not> valid (bindRec (power_on sound_platform [''rAddr'' \<mapsto> ''abcdef'']))"
    by (simp add: power_on_def)
  show ?thesis
    using inv saveBindRecord_invalid_is_noop [OF inv, of sound_platform]
    by (simp add: power_on_def)
qed

text \<open>
  C2 says that a save compares every byte of both fields with what it read back and
  warns on any mismatch. \<open>saveBindRecord_trace\<close> shows the erase, the two writes, the
  two reads and the two comparisons, each over six bytes: the loop over the nine-byte pin
  field runs to the size of the address field. On a medium that gives back byte 7 of
  the pin blob changed, a valid record with an eight-digit pin is saved, the store holds
  a different pin than the record, and no warning is printed; typing \<open>SETPIN 12345678\<close>
  there prints the new pin and \<open>Preferences saved\<close> and nothing else.
\<close>

theorem save_misses_pin_tail:
  "valid (bindRec long_pin) \<and>
   remotePin (bindRec long_pin) = ''12345678'' @ [NUL] \<and>
   prefs (saveBindRecord worn_platform long_pin) ''rPin'' = Some (''12345679'' @ [NUL]) \<and>
   SerialPrintln (SYSPREFIX @ ''ERROR: remote pin is not saved'')
     \<notin> set (trace (saveBindRecord worn_platform long_pin)) \<and>
   prefs (feed worn_platform (''SETPIN 12345678'' @ [CHR 0x0A]) fresh) ''rPin''
     = Some (''12345679'' @ [NUL]) \<and>
   trace (feed worn_platform (''SETPIN 12345678'' @ [CHR 0x0A]) fresh) =
     trace fresh @
     [SerialPrint (SYSPREFIX @ ''INFO: New pin is ''), SerialPrintln ''12345678'',
      PrefsBegin ''BTPROXY'' False, PrefsClear, PrefsEnd, PrefsBegin ''BTPROXY'' False,
      PrefsPutBytes ''rAddr'' (replicate 6 (CHR 0xFF)),
      PrefsPutBytes ''rPin'' (''12345678'' @ [NUL]),
      PrefsGetBytes ''rAddr'', PrefsGetBytes ''rPin'', PrefsEnd,
      SerialPrintln (SYSPREFIX @ ''DEBUG: Preferences saved'')]"
  by code_simp

text \<open>
  C8, as the code has it. \<open>loadBindRecord\<close> asks for the address key first. If it is
  absent, the load ends with \<open>valid == false\<close> and the pin key is neither probed nor
  read. If the address key is present it is read into the address field of the record;
  if the pin key is then absent, the load ends with \<open>valid == false\<close>, the address just
  read stays in the record, and the pin field and the working variables are untouched.
  \<open>valid\<close> is true after the load exactly when both keys are present.
\<close>

theorem loadBindRecord_early_exit:
  "(prefs s ''rAddr'' = None \<longrightarrow>
      loadBindRecord s =
        emit [PrefsBegin ''BTPROXY'' True, PrefsIsKey ''rAddr''] (set_valid False s)) \<and>
   (prefs s ''rAddr'' \<noteq> None \<and> prefs s ''rPin'' = None \<longrightarrow>
      loadBindRecord s =
        emit [PrefsBegin ''BTPROXY'' True, PrefsIsKey ''rAddr'', PrefsGetBytes ''rAddr'',
              PrefsIsKey ''rPin'']
          (set_remoteAddr (getBytes (prefs s) ''rAddr'' (remoteAddr (bindRec s)) 6)
             (set_valid False s))) \<and>
   (valid (bindRec (loadBindRecord s)) \<longleftrightarrow>
      prefs s ''rAddr'' \<noteq> None \<and> prefs s ''rPin'' \<noteq> None)"
  by (simp add: loadBindRecord_def Let_def isKey_def state_ops sizeof_remoteAddr_def)

theorem loadBindRecord_early_exit_witness:
  "\<not> valid (bindRec (loadBindRecord (power_on sound_platform Map.empty))) \<and>
   trace (loadBindRecord (power_on sound_platform Map.empty))
     = [PrefsBegin ''BTPROXY'' True, PrefsIsKey ''rAddr''] \<and>
   \<not> valid (bindRec (loadBindRecord (power_on sound_platform [''rAddr'' \<mapsto> ''abcdef'']))) \<and>
   trace (loadBindRecord (power_on sound_platform [''rAddr'' \<mapsto> ''abcdef'']))
     = [PrefsBegin ''BTPROXY'' True, PrefsIsKey ''rAddr'', PrefsGetBytes ''rAddr'',
        PrefsIsKey ''rPin''] \<and>
   remotePin (bindRec (loadBindRecord (power_on sound_platform [''rAddr'' \<mapsto> ''abcdef''])))
     = replicate 9 NUL \<and>
   valid (bindRec (loadBindRecord
            (power_on sound_platform [''rAddr'' \<mapsto> ''abcdef'', ''rPin'' \<mapsto> ''1234'' @ [NUL]])))"
  using loadBindRecord_early_exit [of "power_on sound_platform Map.empty"]
    loadBindRecord_early_exit [of "power_on sound_platform [''rAddr'' \<mapsto> ''abcdef'']"]
    loadBindRecord_early_exit
      [of "power_on sound_platform [''rAddr'' \<mapsto> ''abcdef'', ''rPin'' \<mapsto> ''1234'' @ [NUL]]"]
  by (simp add: power_on_def state_ops)

text \<open>
  The sentence of the specification, that with either key absent the load ends without reading the
  other key, fails when the absent key is the pin: the address has been read by then.
\<close>

theorem load_reads_address_without_pin:
  "prefs (power_on sound_platform [''rAddr'' \<mapsto> ''abcdef'']) ''rPin'' = None \<and>
   PrefsGetBytes ''rAddr''
     \<in> set (trace (loadBindRecord (power_on sound_platform [''rAddr'' \<mapsto> ''abcdef'']))) \<and>
   remoteAddr (bindRec (loadBindRecord (power_on sound_platform [''rAddr'' \<mapsto> ''abcdef''])))
     = ''abcdef''"
  by (simp add: loadBindRecord_def Let_def isKey_def state_ops power_on_def getBytes_def
        sizeof_remoteAddr_def)

text \<open>Saving a record on a sound medium and loading it after a restart gives it back.\<close>

lemma load_after_save:
  assumes "length (remoteAddr r) = 6" and "length (remotePin r) = 9"
      and "nvs_retain E = (\<lambda>k v. v)"
  shows "addr (loadBindRecord (power_on E (readback E r))) = BTAddress_fromNative (remoteAddr r)"
    and "pin (loadBindRecord (power_on E (readback E r))) = remotePin r"
proof -
  from assms(1,2) have ne: "remoteAddr r \<noteq> []" "remotePin r \<noteq> []"
    by auto
  show "addr (loadBindRecord (power_on E (readback E r))) = BTAddress_fromNative (remoteAddr r)"
    using assms ne
    by (simp add: loadBindRecord_def Let_def state_ops isKey_def readback_def power_on_def
          getBytes_def memcpy_def sizeof_remoteAddr_def sizeof_remotePin_def)
  show "pin (loadBindRecord (power_on E (readback E r))) = remotePin r"
    using assms ne
    by (simp add: loadBindRecord_def Let_def state_ops isKey_def readback_def power_on_def
          getBytes_def memcpy_def sizeof_remoteAddr_def sizeof_remotePin_def)
qed

lemma defaultBindRecord_result:
  "defaultBindRecord E s =
     println (SYSPREFIX @ ''DEBUG: default preferences loaded'')
       (set_valid True
          (set_remotePin
             (''0000'' @ NUL # map (after_pin_literal E) [0..<4] @ drop 9 (remotePin (bindRec s)))
             (set_remoteAddr
                (getNative (BTAddress_fromString E DEFAULT_REMOTE_ADDR) @
                 drop 6 (remoteAddr (bindRec s))) s)))"
  by (cases "BTAddress_fromString E DEFAULT_REMOTE_ADDR")
     (simp add: defaultBindRecord_def Let_def state_ops memcpy_def sizeof_remoteAddr_def
        sizeof_remotePin_def DEFAULT_REMOTE_PIN_def getNative_def)

lemma defaultBindRecord_bindRec:
  "bindRec (defaultBindRecord E s) =
     \<lparr>valid = True,
      remoteAddr = getNative (BTAddress_fromString E DEFAULT_REMOTE_ADDR) @
                   drop 6 (remoteAddr (bindRec s)),
      remotePin = ''0000'' @ NUL # map (after_pin_literal E) [0..<4] @
                  drop 9 (remotePin (bindRec s))\<rparr>"
  by (simp add: defaultBindRecord_result state_ops)

lemma defaultBindRecord_twice:
  assumes "bindRec t = bindRec (defaultBindRecord E s)"
  shows "bindRec (defaultBindRecord E t) = bindRec (defaultBindRecord E s)"
  using assms
  by (cases "BTAddress_fromString E DEFAULT_REMOTE_ADDR")
     (simp add: defaultBindRecord_bindRec getNative_def)

section \<open>Setting the pin code\<close>

lemma pin_scan_iff: "pin_scan m = list_all is_digit (cstr m)"
  by (induction m) (auto simp: cstr_Cons cstr_Nil is_digit_def)

lemma setBindPin_rejects:
  assumes "malformed_pin (cstr arg)"
  shows "setBindPin arg s =
           println (SYSPREFIX @ (if cstr arg = [] then ''ERROR: invalid pin''
                                 else ''ERROR: invalid character in pin, only 0..9 allowed''))
             (set_valid False s)"
  using assms
  by (auto simp: setBindPin_def malformed_pin_def Let_def strlen_def pin_scan_iff cstr_take
        sizeof_remotePin_def)

lemma setBindPin_accepts:
  assumes "\<not> malformed_pin (cstr arg)" and "length (remotePin (bindRec s)) = 9"
  shows "setBindPin arg s =
           emit [SerialPrint (SYSPREFIX @ ''INFO: New pin is ''),
                 SerialPrintln (take 8 (cstr arg))]
             (set_valid True
                (set_remotePin
                   (take 8 (cstr arg) @ replicate (9 - length (take 8 (cstr arg))) NUL) s))"
proof -
  have copy: "take (min (strlen arg) 8) arg = take 8 (cstr arg)"
    using take_cstr_prefix [of "min (strlen arg) 8" arg]
    by (simp add: strlen_def min_def)
  have shown: "cstr (take 8 (cstr arg) @ replicate (9 - length (take 8 (cstr arg))) NUL)
                 = take 8 (cstr arg)"
    by (rule cstr_padded) (rule cstr_take_no_NUL)
  show ?thesis
    using assms copy shown
    by (auto simp: setBindPin_def malformed_pin_def Let_def state_ops sizeof_remotePin_def
          pin_scan_iff cstr_take strlen_def memset_def memcpy_def min_def)
qed

lemma setBindPin_frame:
  "addr (setBindPin a s) = addr s"
  "pin (setBindPin a s) = pin s"
  "commandMode (setBindPin a s) = commandMode s"
  "lastBtnState (setBindPin a s) = lastBtnState s"
  "connectionGood (setBindPin a s) = connectionGood s"
  "lineBuffer (setBindPin a s) = lineBuffer s"
  "linePos (setBindPin a s) = linePos s"
  "prefs (setBindPin a s) = prefs s"
  "remoteAddr (bindRec (setBindPin a s)) = remoteAddr (bindRec s)"
  by (simp_all add: setBindPin_def Let_def state_ops)

lemma setBindPin_length:
  assumes "length (remotePin (bindRec s)) = 9"
  shows "length (remotePin (bindRec (setBindPin a s))) = 9"
proof (cases "malformed_pin (cstr a)")
  case True
  then show ?thesis
    using assms by (simp add: setBindPin_rejects state_ops)
next
  case False
  then show ?thesis
    using assms by (simp add: setBindPin_accepts state_ops)
qed

text \<open>
  C5. For every code string \<open>C\<close>, \<open>setBindPin\<close> succeeds (leaves the record valid) if
  and only if \<open>C\<close> is non-empty and every character among its first eight, up to the
  terminating zero, is a decimal digit. On success the nine-byte pin field holds \<open>C\<close>
  cut to eight bytes, and every byte behind it is zero.
\<close>

theorem setBindPin_succeeds_iff:
  assumes "length (remotePin (bindRec s)) = sizeof_remotePin"
  shows "(valid (bindRec (setBindPin C s)) \<longleftrightarrow>
            cstr C \<noteq> [] \<and> list_all is_digit (take 8 (cstr C))) \<and>
         (valid (bindRec (setBindPin C s)) \<longrightarrow>
            remotePin (bindRec (setBindPin C s)) =
              take 8 (cstr C) @ replicate (9 - length (take 8 (cstr C))) NUL)"
proof -
  have copy: "take (min (strlen C) 8) C = take 8 (cstr C)"
    using take_cstr_prefix [of "min (strlen C) 8" C]
    by (simp add: strlen_def min_def)
  show ?thesis
    using assms copy
    by (auto simp: setBindPin_def Let_def println_def emit_def set_valid_def set_remotePin_def
          sizeof_remotePin_def pin_scan_iff cstr_take strlen_def memset_def memcpy_def min_def)
qed

theorem setBindPin_succeeds_iff_witness:
  "length (remotePin (bindRec (power_on sound_platform Map.empty))) = sizeof_remotePin \<and>
   valid (bindRec (setBindPin (''1234567890'' @ [NUL]) (power_on sound_platform Map.empty))) \<and>
   remotePin (bindRec (setBindPin (''1234567890'' @ [NUL]) (power_on sound_platform Map.empty)))
     = ''12345678'' @ [NUL]"
proof -
  have len: "length (remotePin (bindRec (power_on sound_platform Map.empty))) = sizeof_remotePin"
    by (simp add: power_on_def sizeof_remotePin_def)
  have str: "cstr (''1234567890'' @ [NUL]) = ''1234567890''"
    by (simp add: cstr_def NUL_def)
  show ?thesis
    using len setBindPin_succeeds_iff [OF len, of "''1234567890'' @ [NUL]"]
    unfolding str by (simp add: is_digit_def)
qed

section \<open>Validating and setting an address\<close>

lemma hexdigit_lower_hex: "hexdigit n \<in> set lower_hex"
proof -
  have "n mod 16 < length lower_hex"
    by (simp add: lower_hex_def)
  then have "lower_hex ! (n mod 16) \<in> set lower_hex"
    by (rule nth_mem)
  then show ?thesis
    by (simp add: hexdigit_def lower_hex_def)
qed

lemma tolower_lower_hex:
  assumes "c \<in> set lower_hex"
  shows "tolower c = c"
proof -
  have "list_all (\<lambda>c. tolower c = c) lower_hex"
    by (simp add: lower_hex_def tolower_def upper_letters_def lower_letters_def)
  then show ?thesis
    using assms by (simp add: list_all_iff)
qed

lemma tolower_colon: "tolower (CHR '':'') = CHR '':''"
  by (simp add: tolower_def upper_letters_def lower_letters_def)

lemma tolower_hex2: "map tolower (hex2 b) = hex2 b"
  by (simp add: hex2_def tolower_lower_hex hexdigit_lower_hex)

lemma toString_lower: "map tolower (BTAddress_toString a) = BTAddress_toString a"
  by (cases a) (simp add: BTAddress_toString_def tolower_hex2 tolower_colon)

lemma toString_canonical: "canonical_text (BTAddress_toString a)"
  by (cases a)
     (simp add: canonical_text_def BTAddress_toString_def hex2_def hexdigit_lower_hex)

lemma validateAddr_sample: "validateAddr sound_platform (''01:23:45:67:89:AB'' @ [NUL])"
  by code_simp

text \<open>
  C4. For every address string \<open>A\<close>, \<open>validateAddr\<close> answers true if and only if
  lower-casing \<open>A\<close>, parsing it, rendering the address and lower-casing the rendering
  gives the lower-cased \<open>A\<close> back. Whatever the parser answers on malformed text, an
  accepted string is canonical once lower-cased, so every malformed string is rejected.
\<close>

theorem validateAddr_round_trip:
  "validateAddr E A = round_trip_law E (cstr A) \<and>
   (validateAddr E A \<longrightarrow> canonical_text (map tolower (cstr A)))"
proof
  show "validateAddr E A = round_trip_law E (cstr A)"
    by (simp add: validateAddr_def round_trip_law_def Let_def)
  show "validateAddr E A \<longrightarrow> canonical_text (map tolower (cstr A))"
  proof
    assume "validateAddr E A"
    then have "BTAddress_toString (BTAddress_fromString E (map tolower (cstr A)))
                 = map tolower (cstr A)"
      by (simp add: validateAddr_def Let_def toString_lower)
    then show "canonical_text (map tolower (cstr A))"
      using toString_canonical [of "BTAddress_fromString E (map tolower (cstr A))"] by simp
  qed
qed

theorem validateAddr_round_trip_witness:
  "validateAddr sound_platform (''01:23:45:67:89:AB'' @ [NUL]) \<and>
   round_trip_law sound_platform ''01:23:45:67:89:AB'' \<and>
   canonical_text ''01:23:45:67:89:ab'' \<and>
   \<not> validateAddr sound_platform (''01:23:45:67:89'' @ [NUL]) \<and>
   \<not> validateAddr sound_platform (''01-23-45-67-89-ab'' @ [NUL]) \<and>
   \<not> validateAddr sound_platform (''0g:23:45:67:89:ab'' @ [NUL])"
proof -
  have low: "map tolower ''01:23:45:67:89:AB'' = ''01:23:45:67:89:ab''"
            "map tolower ''01:23:45:67:89'' = ''01:23:45:67:89''"
            "map tolower ''01-23-45-67-89-ab'' = ''01-23-45-67-89-ab''"
            "map tolower ''0g:23:45:67:89:ab'' = ''0g:23:45:67:89:ab''"
    by (simp_all add: tolower_def upper_letters_def lower_letters_def)
  have plain: "cstr (''01:23:45:67:89:AB'' @ [NUL]) = ''01:23:45:67:89:AB''"
              "cstr (''01:23:45:67:89'' @ [NUL]) = ''01:23:45:67:89''"
              "cstr (''01-23-45-67-89-ab'' @ [NUL]) = ''01-23-45-67-89-ab''"
              "cstr (''0g:23:45:67:89:ab'' @ [NUL]) = ''0g:23:45:67:89:ab''"
    by (simp_all add: cstr_def NUL_def)
  have bad: "\<not> canonical_text ''01:23:45:67:89''"
            "\<not> canonical_text ''01-23-45-67-89-ab''"
            "\<not> canonical_text ''0g:23:45:67:89:ab''"
    by (simp_all add: canonical_text_def lower_hex_def)
  have r1: "\<not> validateAddr sound_platform (''01:23:45:67:89'' @ [NUL])"
    using validateAddr_round_trip [of sound_platform "''01:23:45:67:89'' @ [NUL]"] bad(1)
    unfolding plain low by blast
  have r2: "\<not> validateAddr sound_platform (''01-23-45-67-89-ab'' @ [NUL])"
    using validateAddr_round_trip [of sound_platform "''01-23-45-67-89-ab'' @ [NUL]"] bad(2)
    unfolding plain low by blast
  have r3: "\<not> validateAddr sound_platform (''0g:23:45:67:89:ab'' @ [NUL])"
    using validateAddr_round_trip [of sound_platform "''0g:23:45:67:89:ab'' @ [NUL]"] bad(3)
    unfolding plain low by blast
  show ?thesis
    using validateAddr_sample r1 r2 r3
      validateAddr_round_trip [of sound_platform "''01:23:45:67:89:AB'' @ [NUL]"]
    unfolding plain low by blast
qed

lemma setBindAddress_result:
  "setBindAddress E arg s =
     (if validateAddr E arg
      then emit [SerialPrint (SYSPREFIX @ ''INFO: New remote address is ''),
                 SerialPrintln (BTAddress_toString (BTAddress_fromString E (cstr arg)))]
             (set_valid True
                (set_remoteAddr
                   (memcpy (remoteAddr (bindRec s))
                      (getNative (BTAddress_fromString E (cstr arg))) 6) s))
      else println (SYSPREFIX @ ''ERROR: invalid address'') (set_valid False s))"
  by (simp add: setBindAddress_def Let_def state_ops sizeof_remoteAddr_def)

lemma setBindAddress_valid:
  "valid (bindRec (setBindAddress E arg s)) = validateAddr E arg"
  by (simp add: setBindAddress_result state_ops)

lemma setBindAddress_lineBuffer:
  "bindRec (setBindAddress E arg (s\<lparr>lineBuffer := b\<rparr>)) = bindRec (setBindAddress E arg s)"
  "prefs (setBindAddress E arg (s\<lparr>lineBuffer := b\<rparr>)) = prefs (setBindAddress E arg s)"
  "trace (setBindAddress E arg (s\<lparr>lineBuffer := b\<rparr>)) = trace (setBindAddress E arg s)"
  by (simp_all add: setBindAddress_result state_ops)

lemma setBindAddress_frame:
  "addr (setBindAddress E a s) = addr s"
  "pin (setBindAddress E a s) = pin s"
  "commandMode (setBindAddress E a s) = commandMode s"
  "lastBtnState (setBindAddress E a s) = lastBtnState s"
  "connectionGood (setBindAddress E a s) = connectionGood s"
  "lineBuffer (setBindAddress E a s) = lineBuffer s"
  "linePos (setBindAddress E a s) = linePos s"
  "prefs (setBindAddress E a s) = prefs s"
  "remotePin (bindRec (setBindAddress E a s)) = remotePin (bindRec s)"
  by (simp_all add: setBindAddress_result state_ops)

lemma setBindAddress_length:
  "length (remoteAddr (bindRec s)) = 6 \<Longrightarrow>
     length (remoteAddr (bindRec (setBindAddress E a s))) = 6"
  by (cases "BTAddress_fromString E (cstr a)")
     (simp add: setBindAddress_result state_ops memcpy_def getNative_def)

section \<open>Command lines\<close>

text \<open>
  Typing a line of fewer than 64 characters and a newline on an empty buffer parses the
  line as \<open>with_line\<close> holds it and then empties the buffer.
\<close>

lemma with_line_Nil: "idle s \<Longrightarrow> with_line [] s = s"
  by (simp add: idle_def with_line_def)

lemma with_line_snoc:
  assumes "length l < 63" and "c \<noteq> CHR 0x0D" and "c \<noteq> CHR 0x0A"
  shows "processInput E c (with_line l s) = with_line (l @ [c]) s"
proof -
  have "(l @ replicate (65 - length l) NUL)[length l := c]
          = l @ c # replicate (64 - length l) NUL"
    using assms(1) by (simp add: list_update_append Suc_diff_le replicate_Suc[symmetric]
      del: replicate_Suc) (cases "65 - length l"; simp)
  then show ?thesis
    using assms by (simp add: processInput_def with_line_def Let_def LINE_BUFFER_LENGTH_def)
qed

lemma feed_snoc: "feed E (l @ [c]) s = processInput E c (feed E l s)"
  by (simp add: feed_def)

lemma feed_builds_line:
  assumes "idle s" and "length l < 64"
      and "CHR 0x0D \<notin> set l" and "CHR 0x0A \<notin> set l"
  shows "feed E l s = with_line l s"
  using assms(2-)
proof (induction l rule: rev_induct)
  case Nil
  then show ?case using assms(1) by (simp add: feed_def with_line_Nil)
next
  case (snoc c l)
  then have "feed E l s = with_line l s" by simp
  moreover have "length l < 63" "c \<noteq> CHR 0x0D" "c \<noteq> CHR 0x0A"
    using snoc.prems by auto
  ultimately show ?case
    by (simp add: feed_snoc with_line_snoc)
qed

lemma typed_line:
  assumes "idle s" and "length l < 64"
      and "CHR 0x0D \<notin> set l" and "CHR 0x0A \<notin> set l"
  shows "feed E (l @ [CHR 0x0A]) s = resetLine (parseCommand E (with_line l s))"
  by (simp add: feed_snoc feed_builds_line [OF assms] processInput_def)

text \<open>The verbs exclude each other where the parser tells them apart.\<close>

lemma starts_with_agree:
  assumes "starts_with t v" and "starts_with t w"
  shows "take (length w) v = take (length v) w"
proof -
  have "take (length w) v = take (length w) (take (length v) t)"
    using assms(1) by (simp add: starts_with_def)
  also have "\<dots> = take (length v) (take (length w) t)"
    by (simp add: take_take min.commute)
  also have "\<dots> = take (length v) w"
    using assms(2) by (simp add: starts_with_def)
  finally show ?thesis .
qed

lemma setpin_not_other:
  assumes "starts_with t ''SETPIN''"
  shows "\<not> starts_with t ''HELP''" "\<not> starts_with t ''INFO''" "\<not> starts_with t ''SCAN''"
        "\<not> starts_with t ''CLEAR''" "\<not> starts_with t ''SETADDR''"
  using starts_with_agree [OF assms] by fastforce+

lemma setaddr_not_other:
  assumes "starts_with t ''SETADDR''"
  shows "\<not> starts_with t ''HELP''" "\<not> starts_with t ''INFO''" "\<not> starts_with t ''SCAN''"
        "\<not> starts_with t ''CLEAR''"
  using starts_with_agree [OF assms] by fastforce+

lemma clear_not_other:
  assumes "starts_with t ''CLEAR''"
  shows "\<not> starts_with t ''HELP''" "\<not> starts_with t ''INFO''" "\<not> starts_with t ''SCAN''"
  using starts_with_agree [OF assms] by fastforce+

lemma prefix_lengths: "length ''SETPIN '' = 7" "length ''SETADDR '' = 8"
  by simp_all

lemma parseCommand_setpin:
  "starts_with (cmdUpper s) ''SETPIN'' \<Longrightarrow>
     parseCommand E s =
       (let s1 = setBindPin (drop 7 (lineBuffer s)) s
        in if valid (bindRec s1) then saveBindRecord E s1 else s1)"
  by (simp only: parseCommand_def setpin_not_other prefix_lengths if_False if_True)

lemma parseCommand_setaddr:
  "starts_with (cmdUpper s) ''SETADDR'' \<Longrightarrow>
     parseCommand E s =
       (let s1 = setBindAddress E (drop 8 (lineBuffer s)) s
        in if valid (bindRec s1) then saveBindRecord E s1 else s1)"
  by (simp only: parseCommand_def setaddr_not_other prefix_lengths if_False if_True)

lemma parseCommand_clear:
  "starts_with (cmdUpper s) ''CLEAR'' \<Longrightarrow>
     parseCommand E s = saveBindRecord E (defaultBindRecord E s)"
  by (simp add: parseCommand_def clear_not_other)

lemma parseCommand_setaddr_fields:
  assumes "starts_with (cmdUpper s) ''SETADDR''"
  shows "bindRec (parseCommand E s) = bindRec (setBindAddress E (drop 8 (lineBuffer s)) s)"
    and "prefs (parseCommand E s) =
           (if validateAddr E (drop 8 (lineBuffer s))
            then readback E (bindRec (setBindAddress E (drop 8 (lineBuffer s)) s))
            else prefs (setBindAddress E (drop 8 (lineBuffer s)) s))"
    and "trace (parseCommand E s) =
           (if validateAddr E (drop 8 (lineBuffer s))
            then trace (saveBindRecord E (setBindAddress E (drop 8 (lineBuffer s)) s))
            else trace (setBindAddress E (drop 8 (lineBuffer s)) s))"
  by (simp_all add: parseCommand_setaddr [OF assms] Let_def setBindAddress_valid
        saveBindRecord_frame saveBindRecord_prefs)

lemma parseCommand_clear_fields:
  assumes "starts_with (cmdUpper s) ''CLEAR''"
  shows "bindRec (parseCommand E s) = bindRec (defaultBindRecord E s)"
    and "prefs (parseCommand E s) = readback E (bindRec (defaultBindRecord E s))"
    and "lineBuffer (parseCommand E s) = lineBuffer s"
  by (simp_all add: parseCommand_clear [OF assms] saveBindRecord_frame saveBindRecord_prefs
        defaultBindRecord_bindRec)
     (simp add: defaultBindRecord_result state_ops)

subsection \<open>SETPIN with a malformed argument\<close>

lemma setpin_12ab_line:
  "starts_with (cmdUpper (with_line ''SETPIN 12ab'' fresh)) ''SETPIN''"
  "malformed_pin (cstr (drop 7 (lineBuffer (with_line ''SETPIN 12ab'' fresh))))"
  "cstr (drop 7 (lineBuffer (with_line ''SETPIN 12ab'' fresh))) = ''12ab''"
  "remotePin (bindRec (with_line ''SETPIN 12ab'' fresh)) = ''0000'' @ replicate 5 NUL"
  by code_simp+

text \<open>
  C3, as the code has it. For every prior binding state, a \<open>SETPIN\<close> line whose argument
  is malformed (empty, or with a character that is no digit among its first eight, as in
  \<open>12ab\<close>) is rejected with an error report. The address and pin bytes of the record, the
  persistent store and the working variables are unchanged, and the \<open>valid\<close> flag of the
  record is false afterwards, whatever it was before.
\<close>

theorem setpin_malformed_rejected:
  assumes "starts_with (cmdUpper s) ''SETPIN''"
      and "malformed_pin (cstr (drop 7 (lineBuffer s)))"
  shows "remoteAddr (bindRec (parseCommand E s)) = remoteAddr (bindRec s) \<and>
         remotePin (bindRec (parseCommand E s)) = remotePin (bindRec s) \<and>
         prefs (parseCommand E s) = prefs s \<and>
         addr (parseCommand E s) = addr s \<and>
         pin (parseCommand E s) = pin s \<and>
         \<not> valid (bindRec (parseCommand E s)) \<and>
         trace (parseCommand E s) =
           trace s @
           [SerialPrintln
              (SYSPREFIX @ (if cstr (drop 7 (lineBuffer s)) = [] then ''ERROR: invalid pin''
                            else ''ERROR: invalid character in pin, only 0..9 allowed''))]"
  by (simp add: parseCommand_setpin [OF assms(1)] setBindPin_rejects [OF assms(2)] Let_def
        state_ops)

theorem setpin_malformed_rejected_witness:
  "starts_with (cmdUpper (with_line ''SETPIN 12ab'' fresh)) ''SETPIN'' \<and>
   malformed_pin (cstr (drop 7 (lineBuffer (with_line ''SETPIN 12ab'' fresh)))) \<and>
   remotePin (bindRec (parseCommand sound_platform (with_line ''SETPIN 12ab'' fresh)))
     = ''0000'' @ replicate 5 NUL \<and>
   prefs (parseCommand sound_platform (with_line ''SETPIN 12ab'' fresh))
     = prefs (with_line ''SETPIN 12ab'' fresh) \<and>
   \<not> valid (bindRec (parseCommand sound_platform (with_line ''SETPIN 12ab'' fresh))) \<and>
   trace (parseCommand sound_platform (with_line ''SETPIN 12ab'' fresh)) =
     trace (with_line ''SETPIN 12ab'' fresh) @
     [SerialPrintln (SYSPREFIX @ ''ERROR: invalid character in pin, only 0..9 allowed'')]"
  using setpin_malformed_rejected [OF setpin_12ab_line(1) setpin_12ab_line(2), of sound_platform]
    setpin_12ab_line
  by simp

text \<open>
  The sentence of the specification, that the flag keeps the value it had, fails on a record that was
  valid: \<open>setBindPin\<close> clears the flag before it looks at the argument. Here the line
  \<open>SETPIN 12ab\<close> and a newline are typed on a device that holds the defaults.
\<close>

theorem setpin_keeps_valid_counterexample:
  "valid (bindRec fresh) \<and>
   \<not> valid (bindRec (feed sound_platform (''SETPIN 12ab'' @ [CHR 0x0A]) fresh))"
  by code_simp

subsection \<open>SETADDR and the eighth character\<close>

lemma cmdUpper_offset_7:
  "take 7 (cmdUpper (s\<lparr>lineBuffer := (lineBuffer s)[7 := x]\<rparr>)) = take 7 (cmdUpper s)"
proof -
  have "take 7 (cmdUpper (s\<lparr>lineBuffer := (lineBuffer s)[7 := x]\<rparr>))
          = map toupper (take 7 (cstr (take 8 ((lineBuffer s)[7 := x]))))"
    by (simp add: cmdUpper_def take_map)
  also have "\<dots> = map toupper (cstr (take 7 ((lineBuffer s)[7 := x])))"
    by (simp only: cstr_take_7_of_8)
  also have "\<dots> = map toupper (cstr (take 7 (lineBuffer s)))"
    by simp
  also have "\<dots> = map toupper (take 7 (cstr (take 8 (lineBuffer s))))"
    by (simp only: cstr_take_7_of_8)
  also have "\<dots> = take 7 (cmdUpper s)"
    by (simp add: cmdUpper_def take_map)
  finally show ?thesis .
qed

lemma starts_with_take_7:
  "length v \<le> 7 \<Longrightarrow> starts_with t v = starts_with (take 7 t) v"
  by (simp add: starts_with_def min_def)

lemma starts_with_offset_7:
  "length v \<le> 7 \<Longrightarrow>
     starts_with (cmdUpper (s\<lparr>lineBuffer := (lineBuffer s)[7 := x]\<rparr>)) v
       = starts_with (cmdUpper s) v"
  using starts_with_take_7 [of v "cmdUpper (s\<lparr>lineBuffer := (lineBuffer s)[7 := x]\<rparr>)"]
    starts_with_take_7 [of v "cmdUpper s"]
  by (simp add: cmdUpper_offset_7)

lemma setaddr_x_line:
  "starts_with (cmdUpper (with_line ''SETADDRX01:23:45:67:89:ab'' fresh)) ''SETADDR''"
  "validateAddr sound_platform
     (drop 8 (lineBuffer (with_line ''SETADDRX01:23:45:67:89:ab'' fresh)))"
  "starts_with (cmdUpper (with_line ''SETADDR 01:23'' fresh)) ''SETADDR''"
  "\<not> validateAddr sound_platform (drop 8 (lineBuffer (with_line ''SETADDR 01:23'' fresh)))"
  by code_simp+

text \<open>
  C6, as the code has it. For a line whose first seven characters, upper-cased, are
  \<open>SETADDR\<close>, the argument passed to validation is the text from offset 8 of the line
  on. The line sets the address of the record and stores it exactly when that text
  validates, and leaves address and store alone otherwise. The byte at offset 7 is
  skipped unread: with any other byte there the record, the store and the output are
  the same.
\<close>

theorem setaddr_argument_from_offset_8:
  assumes "starts_with (cmdUpper s) ''SETADDR''"
  shows "(valid (bindRec (parseCommand E s)) \<longleftrightarrow> validateAddr E (drop 8 (lineBuffer s))) \<and>
         (validateAddr E (drop 8 (lineBuffer s)) \<longrightarrow>
            remoteAddr (bindRec (parseCommand E s)) =
              memcpy (remoteAddr (bindRec s))
                (getNative (BTAddress_fromString E (cstr (drop 8 (lineBuffer s))))) 6 \<and>
            prefs (parseCommand E s) ''rAddr'' =
              Some (nvs_retain E ''rAddr'' (take 6 (remoteAddr (bindRec (parseCommand E s)))))) \<and>
         (\<not> validateAddr E (drop 8 (lineBuffer s)) \<longrightarrow>
            remoteAddr (bindRec (parseCommand E s)) = remoteAddr (bindRec s) \<and>
            prefs (parseCommand E s) = prefs s) \<and>
         bindRec (parseCommand E (s\<lparr>lineBuffer := (lineBuffer s)[7 := x]\<rparr>))
           = bindRec (parseCommand E s) \<and>
         prefs (parseCommand E (s\<lparr>lineBuffer := (lineBuffer s)[7 := x]\<rparr>))
           = prefs (parseCommand E s) \<and>
         trace (parseCommand E (s\<lparr>lineBuffer := (lineBuffer s)[7 := x]\<rparr>))
           = trace (parseCommand E s)"
proof -
  let ?arg = "drop 8 (lineBuffer s)"
  let ?s' = "s\<lparr>lineBuffer := (lineBuffer s)[7 := x]\<rparr>"
  note f = parseCommand_setaddr_fields [OF assms, of E]
  have verb': "starts_with (cmdUpper ?s') ''SETADDR''"
    using assms starts_with_offset_7 [of "''SETADDR''" s x] by simp
  note f' = parseCommand_setaddr_fields [OF verb', of E]
  have arg: "drop 8 (lineBuffer ?s') = ?arg"
    by simp
  have c1: "valid (bindRec (parseCommand E s)) \<longleftrightarrow> validateAddr E ?arg"
    by (simp add: f(1) setBindAddress_valid)
  have c2: "validateAddr E ?arg \<longrightarrow>
            remoteAddr (bindRec (parseCommand E s)) =
              memcpy (remoteAddr (bindRec s))
                (getNative (BTAddress_fromString E (cstr ?arg))) 6 \<and>
            prefs (parseCommand E s) ''rAddr'' =
              Some (nvs_retain E ''rAddr'' (take 6 (remoteAddr (bindRec (parseCommand E s)))))"
    by (simp add: f(1) f(2) readback_def) (simp add: setBindAddress_result state_ops)
  have c3: "\<not> validateAddr E ?arg \<longrightarrow>
            remoteAddr (bindRec (parseCommand E s)) = remoteAddr (bindRec s) \<and>
            prefs (parseCommand E s) = prefs s"
    by (simp add: f(1) f(2)) (simp add: setBindAddress_result state_ops)
  have same: "bindRec (setBindAddress E ?arg ?s') = bindRec (setBindAddress E ?arg s)"
             "prefs (setBindAddress E ?arg ?s') = prefs (setBindAddress E ?arg s)"
             "trace (setBindAddress E ?arg ?s') = trace (setBindAddress E ?arg s)"
    by (rule setBindAddress_lineBuffer)+
  have c4: "bindRec (parseCommand E ?s') = bindRec (parseCommand E s)"
    unfolding f(1) f'(1) arg by (rule same(1))
  have c5: "prefs (parseCommand E ?s') = prefs (parseCommand E s)"
    unfolding f(2) f'(2) arg same by (rule refl)
  have c6: "trace (parseCommand E ?s') = trace (parseCommand E s)"
  proof (cases "validateAddr E ?arg")
    case True
    then have v: "valid (bindRec (setBindAddress E ?arg s))"
                 "valid (bindRec (setBindAddress E ?arg ?s'))"
      by (simp_all add: setBindAddress_valid)
    show ?thesis
      unfolding f(3) f'(3) arg
      by (simp add: True saveBindRecord_trace [OF v(1)] saveBindRecord_trace [OF v(2)] same)
  next
    case False
    then show ?thesis
      unfolding f(3) f'(3) arg by (simp add: same)
  qed
  show ?thesis
    using c1 c2 c3 c4 c5 c6 by blast
qed

theorem setaddr_argument_from_offset_8_witness:
  "starts_with (cmdUpper (with_line ''SETADDRX01:23:45:67:89:ab'' fresh)) ''SETADDR'' \<and>
   validateAddr sound_platform
     (drop 8 (lineBuffer (with_line ''SETADDRX01:23:45:67:89:ab'' fresh))) \<and>
   valid (bindRec (parseCommand sound_platform
                     (with_line ''SETADDRX01:23:45:67:89:ab'' fresh))) \<and>
   bindRec (parseCommand sound_platform
              ((with_line ''SETADDRX01:23:45:67:89:ab'' fresh)
                 \<lparr>lineBuffer :=
                    (lineBuffer (with_line ''SETADDRX01:23:45:67:89:ab'' fresh))[7 := CHR '' '']\<rparr>))
     = bindRec (parseCommand sound_platform (with_line ''SETADDRX01:23:45:67:89:ab'' fresh)) \<and>
   starts_with (cmdUpper (with_line ''SETADDR 01:23'' fresh)) ''SETADDR'' \<and>
   \<not> validateAddr sound_platform (drop 8 (lineBuffer (with_line ''SETADDR 01:23'' fresh))) \<and>
   \<not> valid (bindRec (parseCommand sound_platform (with_line ''SETADDR 01:23'' fresh))) \<and>
   prefs (parseCommand sound_platform (with_line ''SETADDR 01:23'' fresh))
     = prefs (with_line ''SETADDR 01:23'' fresh)"
  using setaddr_argument_from_offset_8 [OF setaddr_x_line(1), of sound_platform "CHR '' ''"]
    setaddr_argument_from_offset_8 [OF setaddr_x_line(3), of sound_platform "CHR '' ''"]
    setaddr_x_line
  by blast

text \<open>
  The sentence of the specification, that no line whose eighth character is not a space sets the
  address, fails on \<open>SETADDRX01:23:45:67:89:ab\<close>, typed with a newline on a device that
  holds the defaults.
\<close>

theorem setaddr_without_space_counterexample:
  "''SETADDRX01:23:45:67:89:ab'' ! 7 = CHR ''X'' \<and>
   valid (bindRec (feed sound_platform (''SETADDRX01:23:45:67:89:ab'' @ [CHR 0x0A]) fresh)) \<and>
   remoteAddr (bindRec (feed sound_platform (''SETADDRX01:23:45:67:89:ab'' @ [CHR 0x0A]) fresh))
     = [CHR 0x01, CHR 0x23, CHR 0x45, CHR 0x67, CHR 0x89, CHR 0xAB] \<and>
   prefs (feed sound_platform (''SETADDRX01:23:45:67:89:ab'' @ [CHR 0x0A]) fresh) ''rAddr''
     = Some [CHR 0x01, CHR 0x23, CHR 0x45, CHR 0x67, CHR 0x89, CHR 0xAB]"
  by code_simp

subsection \<open>CLEAR\<close>

lemma clear_line:
  "starts_with (cmdUpper (with_line ''CLEAR'' (power_on sound_platform Map.empty))) ''CLEAR''"
  "BTAddress_fromString sound_platform DEFAULT_REMOTE_ADDR = broadcast"
  by code_simp+

text \<open>
  C9. \<open>CLEAR\<close> is idempotent: parsing it twice in succession leaves the same record
  and the same persistent store as parsing it once. That state is the default: the
  record is valid and holds the code \<open>0000\<close> and, the address library reading the
  default text as the broadcast address, the address \<open>ff:ff:ff:ff:ff:ff\<close>; the store
  holds what the medium retains of both.
\<close>

theorem clear_idempotent:
  assumes "starts_with (cmdUpper s) ''CLEAR''"
  shows "bindRec (parseCommand E (parseCommand E s)) = bindRec (parseCommand E s) \<and>
         prefs (parseCommand E (parseCommand E s)) = prefs (parseCommand E s) \<and>
         valid (bindRec (parseCommand E s)) \<and>
         cstr (remotePin (bindRec (parseCommand E s))) = ''0000'' \<and>
         prefs (parseCommand E s) ''rPin'' =
           Some (nvs_retain E ''rPin'' (''0000'' @ NUL # map (after_pin_literal E) [0..<4])) \<and>
         (BTAddress_fromString E DEFAULT_REMOTE_ADDR = broadcast \<longrightarrow>
            take 6 (remoteAddr (bindRec (parseCommand E s))) = replicate 6 (CHR 0xFF) \<and>
            prefs (parseCommand E s) ''rAddr'' =
              Some (nvs_retain E ''rAddr'' (replicate 6 (CHR 0xFF))))"
proof -
  let ?t = "parseCommand E s"
  note f = parseCommand_clear_fields [OF assms, of E]
  have verb: "starts_with (cmdUpper ?t) ''CLEAR''"
    using assms by (simp add: cmdUpper_def f(3))
  note g = parseCommand_clear_fields [OF verb, of E]
  have again: "bindRec (defaultBindRecord E ?t) = bindRec (defaultBindRecord E s)"
    by (rule defaultBindRecord_twice) (rule f(1))
  have c1: "bindRec (parseCommand E ?t) = bindRec ?t"
    by (simp only: g(1) f(1) again)
  have c2: "prefs (parseCommand E ?t) = prefs ?t"
    by (simp only: g(2) f(2) again)
  have c3: "valid (bindRec ?t)"
    by (simp add: f(1) defaultBindRecord_bindRec)
  have c4: "take 6 (remoteAddr (bindRec ?t)) = replicate 6 (CHR 0xFF)"
    if "BTAddress_fromString E DEFAULT_REMOTE_ADDR = broadcast"
    by (simp add: f(1) defaultBindRecord_bindRec that broadcast_def getNative_def
          numeral_eq_Suc)
  have c5: "cstr (remotePin (bindRec ?t)) = ''0000''"
    by (simp add: f(1) defaultBindRecord_bindRec cstr_def NUL_def)
  have c6: "prefs ?t ''rAddr'' = Some (nvs_retain E ''rAddr'' (replicate 6 (CHR 0xFF)))"
    if "BTAddress_fromString E DEFAULT_REMOTE_ADDR = broadcast"
    using c4 [OF that] by (simp add: f(2) f(1)[symmetric] readback_def)
  have c7: "prefs ?t ''rPin'' =
              Some (nvs_retain E ''rPin'' (''0000'' @ NUL # map (after_pin_literal E) [0..<4]))"
    by (simp add: f(2) readback_def defaultBindRecord_bindRec)
  show ?thesis
    using c1 c2 c3 c4 c5 c6 c7 by blast
qed

theorem clear_idempotent_witness:
  "starts_with (cmdUpper (with_line ''CLEAR'' (power_on sound_platform Map.empty))) ''CLEAR'' \<and>
   BTAddress_fromString sound_platform DEFAULT_REMOTE_ADDR = broadcast \<and>
   bindRec (parseCommand sound_platform
              (parseCommand sound_platform
                 (with_line ''CLEAR'' (power_on sound_platform Map.empty))))
     = bindRec (parseCommand sound_platform
                  (with_line ''CLEAR'' (power_on sound_platform Map.empty))) \<and>
   prefs (parseCommand sound_platform
            (parseCommand sound_platform
               (with_line ''CLEAR'' (power_on sound_platform Map.empty))))
     = prefs (parseCommand sound_platform
                (with_line ''CLEAR'' (power_on sound_platform Map.empty))) \<and>
   cstr (remotePin (bindRec (parseCommand sound_platform
                               (with_line ''CLEAR'' (power_on sound_platform Map.empty)))))
     = ''0000'' \<and>
   prefs (parseCommand sound_platform (with_line ''CLEAR'' (power_on sound_platform Map.empty)))
     ''rAddr'' = Some (replicate 6 (CHR 0xFF))"
  using clear_idempotent [OF clear_line(1), of sound_platform] clear_line
  by (simp add: sound_platform_def)

subsection \<open>The working copy of the binding\<close>

lemma setpin_4321_line:
  "starts_with (cmdUpper (with_line ''SETPIN 4321'' fresh)) ''SETPIN''"
  "valid (bindRec (parseCommand sound_platform (with_line ''SETPIN 4321'' fresh)))"
  "cstr (remotePin (bindRec (parseCommand sound_platform (with_line ''SETPIN 4321'' fresh))))
     = ''4321''"
  "length (remoteAddr (bindRec (with_line ''SETPIN 4321'' fresh))) = 6"
  "length (remotePin (bindRec (with_line ''SETPIN 4321'' fresh))) = 9"
  "cstr (pin (with_line ''SETPIN 4321'' fresh)) = ''0000''"
  by code_simp+

text \<open>
  C10. A successful \<open>SETADDR\<close> or \<open>SETPIN\<close> changes the binding record and the
  persistent store only. The working variables \<open>addr\<close> and \<open>pin\<close>, which the connect
  loop of the boot sequence uses, keep their values, as do the mode flags and the line
  buffer; the store then holds the new record, and on a sound medium the load after a
  restart puts the new binding into \<open>addr\<close> and \<open>pin\<close>.
\<close>

theorem binding_commands_keep_working_copy:
  assumes "starts_with (cmdUpper s) ''SETADDR'' \<or> starts_with (cmdUpper s) ''SETPIN''"
      and "valid (bindRec (parseCommand E s))"
  shows "addr (parseCommand E s) = addr s \<and>
         pin (parseCommand E s) = pin s \<and>
         commandMode (parseCommand E s) = commandMode s \<and>
         lastBtnState (parseCommand E s) = lastBtnState s \<and>
         connectionGood (parseCommand E s) = connectionGood s \<and>
         lineBuffer (parseCommand E s) = lineBuffer s \<and>
         linePos (parseCommand E s) = linePos s \<and>
         prefs (parseCommand E s) = readback E (bindRec (parseCommand E s)) \<and>
         (length (remoteAddr (bindRec s)) = 6 \<and> length (remotePin (bindRec s)) = 9 \<and>
          nvs_retain E = (\<lambda>k v. v) \<longrightarrow>
            addr (loadBindRecord (power_on E (prefs (parseCommand E s))))
              = BTAddress_fromNative (remoteAddr (bindRec (parseCommand E s))) \<and>
            pin (loadBindRecord (power_on E (prefs (parseCommand E s))))
              = remotePin (bindRec (parseCommand E s)))"
proof -
  let ?t = "parseCommand E s"
  obtain s1 where p: "?t = (if valid (bindRec s1) then saveBindRecord E s1 else s1)"
    and fr: "addr s1 = addr s" "pin s1 = pin s" "commandMode s1 = commandMode s"
            "lastBtnState s1 = lastBtnState s" "connectionGood s1 = connectionGood s"
            "lineBuffer s1 = lineBuffer s" "linePos s1 = linePos s"
    and len: "length (remoteAddr (bindRec s)) = 6 \<and> length (remotePin (bindRec s)) = 9 \<Longrightarrow>
              length (remoteAddr (bindRec s1)) = 6 \<and> length (remotePin (bindRec s1)) = 9"
  proof (cases "starts_with (cmdUpper s) ''SETADDR''")
    case True
    show ?thesis
      by (rule that [of "setBindAddress E (drop 8 (lineBuffer s)) s"])
         (simp_all add: parseCommand_setaddr [OF True] Let_def setBindAddress_frame
            setBindAddress_length)
  next
    case False
    with assms(1) have pin: "starts_with (cmdUpper s) ''SETPIN''" by simp
    show ?thesis
      by (rule that [of "setBindPin (drop 7 (lineBuffer s)) s"])
         (simp_all add: parseCommand_setpin [OF pin] Let_def setBindPin_frame setBindPin_length)
  qed
  have v1: "valid (bindRec s1)"
    using assms(2) by (simp add: p saveBindRecord_frame split: if_splits)
  then have t: "?t = saveBindRecord E s1"
    by (simp add: p)
  have rec: "bindRec ?t = bindRec s1"
    by (simp add: t saveBindRecord_frame)
  have store: "prefs ?t = readback E (bindRec ?t)"
    by (simp add: t saveBindRecord_frame saveBindRecord_prefs [OF v1])
  have reload: "length (remoteAddr (bindRec s)) = 6 \<and> length (remotePin (bindRec s)) = 9 \<and>
          nvs_retain E = (\<lambda>k v. v) \<longrightarrow>
            addr (loadBindRecord (power_on E (prefs ?t)))
              = BTAddress_fromNative (remoteAddr (bindRec ?t)) \<and>
            pin (loadBindRecord (power_on E (prefs ?t))) = remotePin (bindRec ?t)"
  proof
    assume a: "length (remoteAddr (bindRec s)) = 6 \<and> length (remotePin (bindRec s)) = 9 \<and>
               nvs_retain E = (\<lambda>k v. v)"
    with len have l: "length (remoteAddr (bindRec ?t)) = 6" "length (remotePin (bindRec ?t)) = 9"
      by (simp_all add: rec)
    from a have m: "nvs_retain E = (\<lambda>k v. v)" by simp
    show "addr (loadBindRecord (power_on E (prefs ?t)))
              = BTAddress_fromNative (remoteAddr (bindRec ?t)) \<and>
          pin (loadBindRecord (power_on E (prefs ?t))) = remotePin (bindRec ?t)"
      unfolding store using load_after_save [OF l m] by simp
  qed
  show ?thesis
    using fr reload store by (simp add: t saveBindRecord_frame)
qed

theorem binding_commands_keep_working_copy_witness:
  "starts_with (cmdUpper (with_line ''SETPIN 4321'' fresh)) ''SETPIN'' \<and>
   valid (bindRec (parseCommand sound_platform (with_line ''SETPIN 4321'' fresh))) \<and>
   cstr (remotePin (bindRec (parseCommand sound_platform (with_line ''SETPIN 4321'' fresh))))
     = ''4321'' \<and>
   cstr (pin (parseCommand sound_platform (with_line ''SETPIN 4321'' fresh))) = ''0000'' \<and>
   addr (parseCommand sound_platform (with_line ''SETPIN 4321'' fresh))
     = addr (with_line ''SETPIN 4321'' fresh) \<and>
   length (remoteAddr (bindRec (with_line ''SETPIN 4321'' fresh))) = 6 \<and>
   length (remotePin (bindRec (with_line ''SETPIN 4321'' fresh))) = 9 \<and>
   nvs_retain sound_platform = (\<lambda>k v. v) \<and>
   pin (loadBindRecord
          (power_on sound_platform
             (prefs (parseCommand sound_platform (with_line ''SETPIN 4321'' fresh)))))
     = remotePin (bindRec (parseCommand sound_platform (with_line ''SETPIN 4321'' fresh)))"
proof -
  have verb: "starts_with (cmdUpper (with_line ''SETPIN 4321'' fresh)) ''SETADDR'' \<or>
              starts_with (cmdUpper (with_line ''SETPIN 4321'' fresh)) ''SETPIN''"
    using setpin_4321_line(1) by simp
  have medium: "nvs_retain sound_platform = (\<lambda>k v. v)"
    by (simp add: sound_platform_def)
  note main = binding_commands_keep_working_copy [OF verb setpin_4321_line(2)]
  from main have same_addr:
    "addr (parseCommand sound_platform (with_line ''SETPIN 4321'' fresh))
       = addr (with_line ''SETPIN 4321'' fresh)"
    by blast
  from main have same_pin:
    "pin (parseCommand sound_platform (with_line ''SETPIN 4321'' fresh))
       = pin (with_line ''SETPIN 4321'' fresh)"
    by blast
  from main setpin_4321_line(4,5) medium have reload:
    "pin (loadBindRecord
            (power_on sound_platform
               (prefs (parseCommand sound_platform (with_line ''SETPIN 4321'' fresh)))))
       = remotePin (bindRec (parseCommand sound_platform (with_line ''SETPIN 4321'' fresh)))"
    by blast
  have old_pin:
    "cstr (pin (parseCommand sound_platform (with_line ''SETPIN 4321'' fresh))) = ''0000''"
    unfolding same_pin by (rule setpin_4321_line(6))
  show ?thesis
    using setpin_4321_line(1,2,3,4,5) old_pin same_addr medium reload
    by blast
qed

section \<open>Loss of the link\<close>

text \<open>Nothing in the sketch assigns \<open>connectionGood\<close>; it keeps its initial value.\<close>

lemma connectionGood_store:
  "connectionGood (loadBindRecord s) = connectionGood s"
  "connectionGood (saveBindRecord E s) = connectionGood s"
  "connectionGood (defaultBindRecord E s) = connectionGood s"
  by (simp_all add: loadBindRecord_def saveBindRecord_def defaultBindRecord_def Let_def state_ops)

lemma connectionGood_reports:
  "connectionGood (reportCommandMode s) = connectionGood s"
  "connectionGood (checkButton b s) = connectionGood s"
  "connectionGood (printCmdHelp s) = connectionGood s"
  "connectionGood (printInfo s) = connectionGood s"
  "connectionGood (asyncScan E s) = connectionGood s"
  "connectionGood (resetLine s) = connectionGood s"
  by (simp_all add: reportCommandMode_def checkButton_def printCmdHelp_def printInfo_def
        asyncScan_def resetLine_def Let_def state_ops)

lemma connectionGood_setters:
  "connectionGood (setBindAddress E a s) = connectionGood s"
  "connectionGood (setBindPin a s) = connectionGood s"
  by (simp_all add: setBindAddress_def setBindPin_def Let_def state_ops)

lemma connectionGood_parseCommand:
  "connectionGood (parseCommand E s) = connectionGood s"
  by (simp add: parseCommand_def Let_def connectionGood_store connectionGood_reports
        connectionGood_setters emit_def)

lemma connectionGood_processInput:
  "connectionGood (processInput E c s) = connectionGood s"
  by (simp add: processInput_def Let_def connectionGood_parseCommand connectionGood_reports)

lemma connectionGood_feed:
  "connectionGood (feed E bytes s) = connectionGood s"
  unfolding feed_def
  by (induction bytes arbitrary: s) (simp_all add: connectionGood_processInput)

lemma connectionGood_poll_button:
  "connectionGood (poll_button btn k i s) = connectionGood s"
  by (induction k arbitrary: i s) (simp_all add: Let_def connectionGood_reports emit_def)

lemma connectionGood_connect_loop:
  "connect_loop as s = Some (r, t) \<Longrightarrow> connectionGood t = connectionGood s"
proof (induction as arbitrary: s)
  case Nil
  then show ?case by simp
next
  case (Cons a as)
  then show ?case
    by (auto simp: Let_def emit_def connectionGood_poll_button split: if_splits)
qed

lemma connectionGood_setup_boot:
  "setup_boot E inp s = Some r \<Longrightarrow> connectionGood (state_of r) = connectionGood s"
  by (auto simp: setup_boot_def Let_def state_of_def state_ops connectionGood_store
        connectionGood_reports
      split: if_splits option.splits prod.splits dest!: connectionGood_connect_loop)

lemma loop_keeps_flag:
  "\<not> connectionGood s \<Longrightarrow> \<not> connectionGood (state_of (loop E c s))"
  by (simp add: loop_def Let_def state_of_def connectionGood_reports connectionGood_feed emit_def)

lemma cycles_keep_flag:
  "\<not> connectionGood (state_of r) \<Longrightarrow> \<not> connectionGood (state_of (cycles E cs r))"
proof (induction cs arbitrary: r)
  case Nil
  then show ?case by simp
next
  case (Cons c cs)
  show ?case
  proof (cases r)
    case (Running s)
    with Cons.prems have "\<not> connectionGood s" by (simp add: state_of_def)
    then have "\<not> connectionGood (state_of (loop E c s))" by (rule loop_keeps_flag)
    then show ?thesis using Running Cons.IH by simp
  next
    case (Halted s)
    then show ?thesis using Cons.prems by simp
  next
    case (Restarting s)
    then show ?thesis using Cons.prems by simp
  qed
qed

lemma run_keeps_flag:
  assumes "run E flash inp cs = Some r"
  shows "\<not> connectionGood (state_of r)"
proof -
  from assms obtain r0 where boot: "setup_boot E inp (power_on E flash) = Some r0"
    and r: "r = cycles E cs r0"
    by (auto simp: run_def)
  have "\<not> connectionGood (power_on E flash)"
    by (simp add: power_on_def)
  with connectionGood_setup_boot [OF boot] have "\<not> connectionGood (state_of r0)"
    by simp
  then show ?thesis
    unfolding r by (rule cycles_keep_flag)
qed

lemma boot_connected_runs:
  "(case run sound_platform Map.empty boot_connected [] of
      Some (Running s) \<Rightarrow>
        SerialPrintln (SYSPREFIX @ ''STATE: CONNECTED'') \<in> set (trace s) \<and>
        \<not> commandMode (checkButton (button_low link_down) s)
    | _ \<Rightarrow> False)"
  by code_simp

text \<open>
  C1 says that a link found down after it had been confirmed up is reported once as
  lost before the restart. In every state a run of the firmware reaches, a pass of
  \<open>loop\<close> that finds the link down in link mode prints \<open>INFO: RESTART\<close> and restarts,
  once, and prints nothing else: the report of the loss hangs on \<open>connectionGood\<close>, which
  is false in all of them, also after the boot sequence has printed \<open>STATE: CONNECTED\<close>.
\<close>

theorem link_loss_never_reported:
  assumes "run E flash inp cs = Some (Running s)"
      and "\<not> link_up c"
      and "\<not> commandMode (checkButton (button_low c) s)"
  shows "loop E c s =
           Restarting (emit [SerialPrintln (SYSPREFIX @ ''INFO: RESTART''), ESPRestart]
                         (checkButton (button_low c) s))"
proof -
  have "\<not> connectionGood s"
    using run_keeps_flag [OF assms(1)] by (simp add: state_of_def)
  then show ?thesis
    using assms(2,3) by (simp add: loop_def Let_def connectionGood_reports)
qed

theorem link_loss_never_reported_witness:
  "\<exists>s. run sound_platform Map.empty boot_connected [] = Some (Running s) \<and>
       SerialPrintln (SYSPREFIX @ ''STATE: CONNECTED'') \<in> set (trace s) \<and>
       \<not> link_up link_down \<and>
       \<not> commandMode (checkButton (button_low link_down) s) \<and>
       loop sound_platform link_down s =
         Restarting (emit [SerialPrintln (SYSPREFIX @ ''INFO: RESTART''), ESPRestart]
                       (checkButton (button_low link_down) s))"
proof -
  from boot_connected_runs obtain s where
    r: "run sound_platform Map.empty boot_connected [] = Some (Running s)" and
    up: "SerialPrintln (SYSPREFIX @ ''STATE: CONNECTED'') \<in> set (trace s)" and
    mode: "\<not> commandMode (checkButton (button_low link_down) s)"
    by (auto split: option.splits outcome.splits)
  have down: "\<not> link_up link_down"
    by (simp add: link_down_def)
  from link_loss_never_reported [OF r down mode] r up down mode
  show ?thesis by blast
qed

end
